theory Spec2Isabelle
  imports Main "HOL-Library.Sublist" "HOL-Library.Word" "HOL-Library.Multiset"
begin

section \<open>Errors and Go slicing\<close>

text \<open>
  Every error value the program can return, and a panic, as one datatype.  The sentinel
  \<open>errUnsupportedListLine\<close> of parse.go is a constructor of its own: the program
  compares errors with it by identity.
\<close>

datatype error =
    EOF
  | NetError string
  | ProtocolError string
  | TextprotoError int string
  | ErrorString string
  | ErrSyntax
  | ErrRange
  | TimeParseError
  | errUnsupportedListLine
  | Panic

text \<open>The slice expression \<open>s[lo:hi]\<close> of Go: it panics when the bounds are out of range.\<close>

definition slice :: "string \<Rightarrow> int \<Rightarrow> int \<Rightarrow> error + string" where
  "slice s lo hi =
     (if 0 \<le> lo \<and> lo \<le> hi \<and> hi \<le> int (length s)
      then Inr (take (nat (hi - lo)) (drop (nat lo) s))
      else Inl Panic)"

definition slice_from :: "string \<Rightarrow> int \<Rightarrow> error + string" where
  "slice_from s lo = slice s lo (int (length s))"

definition slice_to :: "string \<Rightarrow> int \<Rightarrow> error + string" where
  "slice_to s hi = slice s 0 hi"

section \<open>The Go standard library functions the program calls\<close>

text \<open>
  Strings are byte lists, as in Go.  The functions below model package \<open>strings\<close>,
  \<open>strconv\<close> and \<open>time\<close> on the arguments the program passes.
\<close>

subsection \<open>Package strings\<close>

primrec strings_Index :: "string \<Rightarrow> string \<Rightarrow> int" where
  "strings_Index [] sub = (if sub = [] then 0 else - 1)"
| "strings_Index (c # cs) sub =
     (if prefix sub (c # cs) then 0
      else (let r = strings_Index cs sub in if r < 0 then - 1 else r + 1))"

definition strings_LastIndex :: "string \<Rightarrow> string \<Rightarrow> int" where
  "strings_LastIndex s sub =
     (let r = strings_Index (rev s) (rev sub)
      in if r < 0 then - 1 else int (length s) - int (length sub) - r)"

definition strings_Contains :: "string \<Rightarrow> string \<Rightarrow> bool" where
  "strings_Contains s sub = (0 \<le> strings_Index s sub)"

definition strings_HasPrefix :: "string \<Rightarrow> string \<Rightarrow> bool" where
  "strings_HasPrefix s p = prefix p s"

definition strings_TrimPrefix :: "string \<Rightarrow> string \<Rightarrow> string" where
  "strings_TrimPrefix s p = (if strings_HasPrefix s p then drop (length p) s else s)"

text \<open>
  \<open>genSplit\<close> with \<open>k\<close> cuts left: the loop of Go's \<open>genSplit\<close> for a non-empty
  separator.  Every call site of the program passes a non-empty literal separator; the
  empty separator (which explodes the string into UTF-8 sequences) is not modelled.
\<close>

fun genSplit :: "string \<Rightarrow> string \<Rightarrow> nat \<Rightarrow> string list" where
  "genSplit s sep 0 = [s]"
| "genSplit s sep (Suc k) =
     (let m = strings_Index s sep
      in if m < 0 then [s]
         else take (nat m) s # genSplit (drop (nat m + length sep) s) sep k)"

definition strings_SplitN :: "string \<Rightarrow> string \<Rightarrow> int \<Rightarrow> string list" where
  "strings_SplitN s sep n =
     (if n = 0 then []
      else if n < 0 \<or> int (length s) + 1 < n then genSplit s sep (length s)
      else genSplit s sep (nat n - 1))"

definition strings_Split :: "string \<Rightarrow> string \<Rightarrow> string list" where
  "strings_Split s sep = strings_SplitN s sep (- 1)"

fun strings_Join :: "string list \<Rightarrow> string \<Rightarrow> string" where
  "strings_Join [] sep = []"
| "strings_Join [x] sep = x"
| "strings_Join (x # y # ys) sep = x @ sep @ strings_Join (y # ys) sep"

text \<open>
  White space: the six ASCII white space bytes.  (Go also treats some non-ASCII code
  points as white space; the model reads bytes.)
\<close>

definition isSpace :: "char \<Rightarrow> bool" where
  "isSpace c = (c = CHR '' '' \<or> ((9::nat) \<le> of_char c \<and> of_char c \<le> (13::nat)))"

fun fields_acc :: "string \<Rightarrow> string \<Rightarrow> string list" where
  "fields_acc cur [] = (if cur = [] then [] else [cur])"
| "fields_acc cur (c # cs) =
     (if isSpace c then (if cur = [] then fields_acc [] cs else cur # fields_acc [] cs)
      else fields_acc (cur @ [c]) cs)"

definition strings_Fields :: "string \<Rightarrow> string list" where
  "strings_Fields s = fields_acc [] s"

definition strings_TrimSpace :: "string \<Rightarrow> string" where
  "strings_TrimSpace s = rev (dropWhile isSpace (rev (dropWhile isSpace s)))"

definition strings_TrimLeft :: "string \<Rightarrow> string \<Rightarrow> string" where
  "strings_TrimLeft s cutset = dropWhile (\<lambda>c. c \<in> set cutset) s"

subsection \<open>Package strconv\<close>

definition maxUint64 :: nat where
  "maxUint64 = 18446744073709551615"

definition isDigitChar :: "char \<Rightarrow> bool" where
  "isDigitChar c = ((48::nat) \<le> of_char c \<and> of_char c \<le> (57::nat))"

definition digit_val :: "char \<Rightarrow> nat option" where
  "digit_val c =
     (let n = (of_char c :: nat)
      in if 48 \<le> n \<and> n \<le> 57 then Some (n - 48)
         else if 97 \<le> n \<and> n \<le> 122 then Some (n - 97 + 10)
         else if 65 \<le> n \<and> n \<le> 90 then Some (n - 65 + 10)
         else None)"

text \<open>
  The digit loop of \<open>ParseUint\<close>: a bad digit is a syntax error with value 0, an
  overflow is a range error with the largest value, and the loop stops there.
\<close>

fun parse_digits :: "nat \<Rightarrow> bool \<Rightarrow> string \<Rightarrow> nat \<Rightarrow> nat \<times> error option" where
  "parse_digits base base0 [] n = (n, None)"
| "parse_digits base base0 (c # cs) n =
     (if c = CHR ''_'' \<and> base0 then parse_digits base base0 cs n
      else (case digit_val c of
              None \<Rightarrow> (0, Some ErrSyntax)
            | Some d \<Rightarrow>
                if base \<le> d then (0, Some ErrSyntax)
                else if maxUint64 < n * base + d then (maxUint64, Some ErrRange)
                else parse_digits base base0 cs (n * base + d)))"

text \<open>
  \<open>underscoreOK\<close>: underscores may only separate digits, or follow a base prefix.
  The state is the last thing seen: \<open>CHR ''^''\<close> the beginning, \<open>CHR ''0''\<close> a digit,
  \<open>CHR ''_''\<close> an underscore, \<open>CHR ''!''\<close> anything else.
\<close>

fun underscore_scan :: "bool \<Rightarrow> char \<Rightarrow> string \<Rightarrow> bool" where
  "underscore_scan hex saw [] = (saw \<noteq> CHR ''_'')"
| "underscore_scan hex saw (c # cs) =
     (if isDigitChar c \<or>
         (hex \<and> (case digit_val c of None \<Rightarrow> False | Some d \<Rightarrow> 10 \<le> d \<and> d \<le> 15))
      then underscore_scan hex (CHR ''0'') cs
      else if c = CHR ''_'' then (if saw \<noteq> CHR ''0'' then False else underscore_scan hex (CHR ''_'') cs)
      else if saw = CHR ''_'' then False
      else underscore_scan hex (CHR ''!'') cs)"

definition is_base_letter :: "char \<Rightarrow> bool" where
  "is_base_letter c = (c \<in> set ''bBoOxX'')"

definition underscoreOK :: "string \<Rightarrow> bool" where
  "underscoreOK s0 =
     (let s = (case s0 of c # cs \<Rightarrow> if c = CHR ''-'' \<or> c = CHR ''+'' then cs else s0 | [] \<Rightarrow> s0)
      in case s of
           c # d # cs \<Rightarrow>
             if c = CHR ''0'' \<and> is_base_letter d
             then underscore_scan (d = CHR ''x'' \<or> d = CHR ''X'') (CHR ''0'') cs
             else underscore_scan False (CHR ''^'') s
         | _ \<Rightarrow> underscore_scan False (CHR ''^'') s)"

text \<open>
  \<open>strconv.ParseUint(s, base, 64)\<close> for \<open>base\<close> 0 (the prefix chooses the base) or a
  base from 2 to 36.  Both the value and the error are returned, as in Go: the program
  stores the value even when it ignores the error.
\<close>

definition strconv_ParseUint :: "string \<Rightarrow> nat \<Rightarrow> 64 word \<times> error option" where
  "strconv_ParseUint s0 base =
     (if s0 = [] then (0, Some ErrSyntax)
      else
        let (b, s) =
              (if base \<noteq> 0 then (base, s0)
               else if hd s0 = CHR ''0'' then
                 (if 3 \<le> length s0 \<and> (s0 ! 1 = CHR ''b'' \<or> s0 ! 1 = CHR ''B'') then (2, drop 2 s0)
                  else if 3 \<le> length s0 \<and> (s0 ! 1 = CHR ''o'' \<or> s0 ! 1 = CHR ''O'') then (8, drop 2 s0)
                  else if 3 \<le> length s0 \<and> (s0 ! 1 = CHR ''x'' \<or> s0 ! 1 = CHR ''X'') then (16, drop 2 s0)
                  else (8, drop 1 s0))
               else (10, s0));
            (n, e) = parse_digits b (base = 0) s 0
        in if e \<noteq> None then (of_nat n, e)
           else if base = 0 \<and> CHR ''_'' \<in> set s \<and> \<not> underscoreOK s0 then (0, Some ErrSyntax)
           else (of_nat n, None))"

text \<open>
  \<open>strconv.Atoi\<close>: an optional sign and decimal digits, within the 64-bit \<open>int\<close>.
\<close>

definition strconv_Atoi :: "string \<Rightarrow> error + int" where
  "strconv_Atoi s0 =
     (if s0 = [] then Inl ErrSyntax
      else
        let neg = (hd s0 = CHR ''-'');
            s = (if hd s0 = CHR ''-'' \<or> hd s0 = CHR ''+'' then tl s0 else s0)
        in if s = [] then Inl ErrSyntax
           else (case parse_digits 10 False s 0 of
                   (n, Some ErrRange) \<Rightarrow> Inl ErrRange
                 | (n, Some e) \<Rightarrow> Inl e
                 | (n, None) \<Rightarrow>
                     if \<not> neg \<and> 9223372036854775808 \<le> n then Inl ErrRange
                     else if neg \<and> 9223372036854775808 < n then Inl ErrRange
                     else Inr (if neg then - int n else int n)))"

fun itoa_nat :: "nat \<Rightarrow> string" where
  "itoa_nat n =
     (if n < 10 then [''0123456789'' ! n]
      else itoa_nat (n div 10) @ [''0123456789'' ! (n mod 10)])"

definition strconv_Itoa :: "int \<Rightarrow> string" where
  "strconv_Itoa i = (if i < 0 then CHR ''-'' # itoa_nat (nat (- i)) else itoa_nat (nat i))"

subsection \<open>Package time\<close>

text \<open>
  A \<open>time.Time\<close> as its calendar fields and the zone they are written in.  \<open>zero_Time\<close>
  is Go's zero value, January 1 of year 1, 00:00:00 UTC.
\<close>

record Time =
  Year :: int
  Month :: int
  Day :: int
  Hour :: int
  Minute :: int
  Second :: int
  Nanosecond :: int
  Zone :: string

definition zero_Time :: Time where
  "zero_Time = \<lparr>Year = 1, Month = 1, Day = 1, Hour = 0, Minute = 0, Second = 0,
                 Nanosecond = 0, Zone = ''UTC''\<rparr>"

text \<open>
  \<open>time.Parse\<close> walks the layout chunk by chunk (\<open>nextStdChunk\<close>): a literal prefix,
  then one standard element.  The elements below are those of the four layouts the
  program uses.
\<close>

datatype chunk =
    Lit string
  | stdLongYear
  | stdYear
  | stdZeroMonth
  | stdMonth
  | stdZeroDay
  | stdUnderDay
  | stdHour
  | stdZeroHour12
  | stdZeroMinute
  | stdZeroSecond
  | stdPM
  | stdTZ

text \<open>The decomposition of each layout literal of the program into its chunks.\<close>

definition layout_chunks :: "string \<Rightarrow> chunk list" where
  "layout_chunks layout =
     (if layout = ''20060102150405'' then
        [stdLongYear, stdZeroMonth, stdZeroDay, stdHour, stdZeroMinute, stdZeroSecond]
      else if layout = ''_2 Jan 06 15:04 MST'' then
        [stdUnderDay, Lit '' '', stdMonth, Lit '' '', stdYear, Lit '' '', stdHour, Lit '':'',
         stdZeroMinute, Lit '' '', stdTZ]
      else if layout = ''01-02-06  03:04PM'' then
        [stdZeroMonth, Lit ''-'', stdZeroDay, Lit ''-'', stdYear, Lit ''  '', stdZeroHour12,
         Lit '':'', stdZeroMinute, stdPM]
      else if layout = ''2006-01-02  15:04'' then
        [stdLongYear, Lit ''-'', stdZeroMonth, Lit ''-'', stdZeroDay, Lit ''  '', stdHour,
         Lit '':'', stdZeroMinute]
      else [Lit layout])"

record pstate =
  p_year :: int
  p_month :: int
  p_day :: int
  p_hour :: int
  p_min :: int
  p_sec :: int
  p_nsec :: int
  p_am :: bool
  p_pm :: bool
  p_utc :: bool
  p_zone :: string

definition pstate0 :: pstate where
  "pstate0 = \<lparr>p_year = 0, p_month = - 1, p_day = - 1, p_hour = 0, p_min = 0, p_sec = 0,
               p_nsec = 0, p_am = False, p_pm = False, p_utc = False, p_zone = []\<rparr>"

definition cutspace :: "string \<Rightarrow> string" where
  "cutspace s = dropWhile (\<lambda>c. c = CHR '' '') s"

text \<open>\<open>skip\<close>: a space of the layout matches any run of spaces, any other byte itself.\<close>

function skip :: "string \<Rightarrow> string \<Rightarrow> error + string" where
  "skip v [] = Inr v"
| "skip v (p # ps) =
     (if p = CHR '' '' then
        (if v \<noteq> [] \<and> hd v \<noteq> CHR '' '' then Inl TimeParseError
         else skip (cutspace v) (cutspace (p # ps)))
      else if v = [] \<or> hd v \<noteq> p then Inl TimeParseError
      else skip (tl v) ps)"
  by pat_completeness auto
termination
proof (relation "measure (\<lambda>(v, p). length p)")
  show "wf (measure (\<lambda>(v, p). length p))" by simp
next
  fix v :: string and p :: char and ps :: string
  assume "p = CHR '' ''"
  then have "cutspace (p # ps) = cutspace ps" by (simp add: cutspace_def)
  moreover have "length (cutspace ps) \<le> length ps"
    by (simp add: cutspace_def length_dropWhile_le)
  ultimately show "((cutspace v, cutspace (p # ps)), (v, p # ps)) \<in> measure (\<lambda>(v, p). length p)"
    by simp
next
  fix v :: string and p :: char and ps :: string
  show "((tl v, ps), (v, p # ps)) \<in> measure (\<lambda>(v, p). length p)" by simp
qed

definition dig :: "char \<Rightarrow> int" where
  "dig c = int (of_char c) - 48"

text \<open>\<open>getnum\<close>: one or two decimal digits; \<open>fixed\<close> demands two.\<close>

definition getnum :: "string \<Rightarrow> bool \<Rightarrow> error + (int \<times> string)" where
  "getnum s fixed =
     (case s of
        [] \<Rightarrow> Inl TimeParseError
      | c # cs \<Rightarrow>
          if \<not> isDigitChar c then Inl TimeParseError
          else (case cs of
                  [] \<Rightarrow> if fixed then Inl TimeParseError else Inr (dig c, cs)
                | d # ds \<Rightarrow>
                    if \<not> isDigitChar d then (if fixed then Inl TimeParseError else Inr (dig c, cs))
                    else Inr (dig c * 10 + dig d, ds)))"

text \<open>
  The \<open>atoi\<close> of package time: an optional sign, then digits only, at most \<open>2^63\<close>
  (which wraps to the least \<open>int\<close> when there is no sign).
\<close>

definition time_atoi :: "string \<Rightarrow> error + int" where
  "time_atoi s0 =
     (let neg = (s0 \<noteq> [] \<and> hd s0 = CHR ''-'');
          s = (if s0 \<noteq> [] \<and> (hd s0 = CHR ''-'' \<or> hd s0 = CHR ''+'') then tl s0 else s0)
      in if \<not> list_all isDigitChar s then Inl TimeParseError
         else (let x = foldl (\<lambda>a c. a * 10 + dig c) 0 s
               in if 9223372036854775808 < x then Inl TimeParseError
                  else if neg then Inr (- x)
                  else if x = 9223372036854775808 then Inr (- 9223372036854775808)
                  else Inr x))"

definition shortMonthNames :: "string list" where
  "shortMonthNames = [''Jan'', ''Feb'', ''Mar'', ''Apr'', ''May'', ''Jun'',
                      ''Jul'', ''Aug'', ''Sep'', ''Oct'', ''Nov'', ''Dec'']"

text \<open>\<open>match\<close>: equal up to the case of letters.\<close>

definition fold_case :: "char \<Rightarrow> char" where
  "fold_case c = (if (65::nat) \<le> of_char c \<and> of_char c \<le> (90::nat)
                  then char_of ((of_char c :: nat) + 32) else c)"

definition is_letter :: "char \<Rightarrow> bool" where
  "is_letter c = (((65::nat) \<le> of_char c \<and> of_char c \<le> (90::nat)) \<or>
                  ((97::nat) \<le> of_char c \<and> of_char c \<le> (122::nat)))"

definition match_char :: "char \<Rightarrow> char \<Rightarrow> bool" where
  "match_char c1 c2 = (c1 = c2 \<or> (is_letter c1 \<and> is_letter c2 \<and> fold_case c1 = fold_case c2))"

fun lookup :: "string list \<Rightarrow> nat \<Rightarrow> string \<Rightarrow> error + (int \<times> string)" where
  "lookup [] i val = Inl TimeParseError"
| "lookup (v # tab) i val =
     (if length v \<le> length val \<and> list_all2 match_char (take (length v) val) v
      then Inr (int i, drop (length v) val)
      else lookup tab (Suc i) val)"

text \<open>
  \<open>parseSignedOffset\<close>, \<open>parseGMT\<close> and \<open>parseTimeZone\<close>: the length of the zone
  abbreviation at the start of the value, if there is one.
\<close>

definition parseSignedOffset :: "string \<Rightarrow> nat" where
  "parseSignedOffset v =
     (case v of
        [] \<Rightarrow> 0
      | sign # r \<Rightarrow>
          if sign \<noteq> CHR ''-'' \<and> sign \<noteq> CHR ''+'' then 0
          else (let ds = takeWhile isDigitChar r;
                    x = foldl (\<lambda>a c. a * 10 + dig c) 0 ds
                in if ds = [] \<or> 23 < x then 0 else 1 + length ds))"

definition parseGMT :: "string \<Rightarrow> nat" where
  "parseGMT v = (if drop 3 v = [] then 3 else 3 + parseSignedOffset (drop 3 v))"

definition isUpperChar :: "char \<Rightarrow> bool" where
  "isUpperChar c = ((65::nat) \<le> of_char c \<and> of_char c \<le> (90::nat))"

definition parseTimeZone :: "string \<Rightarrow> nat option" where
  "parseTimeZone v =
     (if length v < 3 then None
      else if 4 \<le> length v \<and> (take 4 v = ''ChST'' \<or> take 4 v = ''MeST'') then Some 4
      else if take 3 v = ''GMT'' then Some (parseGMT v)
      else if hd v = CHR ''+'' \<or> hd v = CHR ''-'' then
        (if 0 < parseSignedOffset v then Some (parseSignedOffset v) else None)
      else
        (let nUpper = length (takeWhile isUpperChar (take 6 v))
         in if nUpper = 5 then (if v ! 4 = CHR ''T'' then Some 5 else None)
            else if nUpper = 4 then
              (if v ! 3 = CHR ''T'' \<or> take 4 v = ''WITA'' then Some 4 else None)
            else if nUpper = 3 then Some 3
            else None))"

text \<open>
  A fractional second in the value that the layout does not mention is read after the
  seconds (\<open>parseNanoseconds\<close>): at most nine digits count.
\<close>

definition parseNanoseconds :: "string \<Rightarrow> int" where
  "parseNanoseconds ds =
     (let d9 = take 9 ds
      in foldl (\<lambda>a c. a * 10 + dig c) 0 d9 * 10 ^ (9 - length d9))"

definition isLeap :: "int \<Rightarrow> bool" where
  "isLeap y = (y mod 4 = 0 \<and> (y mod 100 \<noteq> 0 \<or> y mod 400 = 0))"

definition daysIn :: "int \<Rightarrow> int \<Rightarrow> int" where
  "daysIn m y =
     (if m = 2 then (if isLeap y then 29 else 28)
      else if m = 4 \<or> m = 6 \<or> m = 9 \<or> m = 11 then 30
      else 31)"

text \<open>
  One standard element read from the value: the new value and the fields it sets.  A
  value that does not fit and a field out of range are both parse errors.
\<close>

fun parse_std :: "chunk \<Rightarrow> string \<Rightarrow> pstate \<Rightarrow> error + (string \<times> pstate)" where
  "parse_std (Lit pre) v st =
     (case skip v pre of Inl e \<Rightarrow> Inl e | Inr v' \<Rightarrow> Inr (v', st))"
| "parse_std stdYear v st =
     (if length v < 2 then Inl TimeParseError
      else (case time_atoi (take 2 v) of
              Inl e \<Rightarrow> Inl e
            | Inr y \<Rightarrow> Inr (drop 2 v, st\<lparr>p_year := (if 69 \<le> y then y + 1900 else y + 2000)\<rparr>)))"
| "parse_std stdLongYear v st =
     (if length v < 4 \<or> \<not> isDigitChar (hd v) then Inl TimeParseError
      else (case time_atoi (take 4 v) of
              Inl e \<Rightarrow> Inl e
            | Inr y \<Rightarrow> Inr (drop 4 v, st\<lparr>p_year := y\<rparr>)))"
| "parse_std stdMonth v st =
     (case lookup shortMonthNames 0 v of
        Inl e \<Rightarrow> Inl e
      | Inr (m, v') \<Rightarrow> Inr (v', st\<lparr>p_month := m + 1\<rparr>))"
| "parse_std stdZeroMonth v st =
     (case getnum v True of
        Inl e \<Rightarrow> Inl e
      | Inr (m, v') \<Rightarrow>
          if m \<le> 0 \<or> 12 < m then Inl TimeParseError else Inr (v', st\<lparr>p_month := m\<rparr>))"
| "parse_std stdZeroDay v st =
     (case getnum v True of
        Inl e \<Rightarrow> Inl e
      | Inr (d, v') \<Rightarrow> Inr (v', st\<lparr>p_day := d\<rparr>))"
| "parse_std stdUnderDay v st =
     (case getnum (if v \<noteq> [] \<and> hd v = CHR '' '' then tl v else v) False of
        Inl e \<Rightarrow> Inl e
      | Inr (d, v') \<Rightarrow> Inr (v', st\<lparr>p_day := d\<rparr>))"
| "parse_std stdHour v st =
     (case getnum v False of
        Inl e \<Rightarrow> Inl e
      | Inr (h, v') \<Rightarrow>
          if h < 0 \<or> 24 \<le> h then Inl TimeParseError else Inr (v', st\<lparr>p_hour := h\<rparr>))"
| "parse_std stdZeroHour12 v st =
     (case getnum v True of
        Inl e \<Rightarrow> Inl e
      | Inr (h, v') \<Rightarrow>
          if h < 0 \<or> 12 < h then Inl TimeParseError else Inr (v', st\<lparr>p_hour := h\<rparr>))"
| "parse_std stdZeroMinute v st =
     (case getnum v True of
        Inl e \<Rightarrow> Inl e
      | Inr (m, v') \<Rightarrow>
          if m < 0 \<or> 60 \<le> m then Inl TimeParseError else Inr (v', st\<lparr>p_min := m\<rparr>))"
| "parse_std stdZeroSecond v st =
     (case getnum v True of
        Inl e \<Rightarrow> Inl e
      | Inr (s, v') \<Rightarrow>
          if s < 0 \<or> 60 \<le> s then Inl TimeParseError
          else if 2 \<le> length v' \<and> (hd v' = CHR ''.'' \<or> hd v' = CHR '','') \<and> isDigitChar (v' ! 1)
          then (let ds = takeWhile isDigitChar (tl v')
                in Inr (drop (1 + length ds) v', st\<lparr>p_sec := s, p_nsec := parseNanoseconds ds\<rparr>))
          else Inr (v', st\<lparr>p_sec := s\<rparr>))"
| "parse_std stdPM v st =
     (if length v < 2 then Inl TimeParseError
      else if take 2 v = ''PM'' then Inr (drop 2 v, st\<lparr>p_pm := True\<rparr>)
      else if take 2 v = ''AM'' then Inr (drop 2 v, st\<lparr>p_am := True\<rparr>)
      else Inl TimeParseError)"
| "parse_std stdTZ v st =
     (if 3 \<le> length v \<and> take 3 v = ''UTC'' then Inr (drop 3 v, st\<lparr>p_utc := True\<rparr>)
      else (case parseTimeZone v of
              None \<Rightarrow> Inl TimeParseError
            | Some n \<Rightarrow> Inr (drop n v, st\<lparr>p_zone := take n v\<rparr>)))"

fun parse_chunks :: "chunk list \<Rightarrow> string \<Rightarrow> pstate \<Rightarrow> error + pstate" where
  "parse_chunks [] v st = (if v = [] then Inr st else Inl TimeParseError)"
| "parse_chunks (c # cs) v st =
     (case parse_std c v st of
        Inl e \<Rightarrow> Inl e
      | Inr (v', st') \<Rightarrow> parse_chunks cs v' st')"

text \<open>
  After the last chunk: the 12-hour clock is resolved, a missing month or day is 1, and
  the day must exist in its month.
\<close>

definition finish_parse :: "pstate \<Rightarrow> error + Time" where
  "finish_parse st =
     (let hour = (if p_pm st \<and> p_hour st < 12 then p_hour st + 12
                  else if p_am st \<and> p_hour st = 12 then 0
                  else p_hour st);
          month = (if p_month st < 0 then 1 else p_month st);
          day = (if p_day st < 0 then 1 else p_day st)
      in if day < 1 \<or> daysIn month (p_year st) < day then Inl TimeParseError
         else Inr \<lparr>Year = p_year st, Month = month, Day = day, Hour = hour,
                   Minute = p_min st, Second = p_sec st, Nanosecond = p_nsec st,
                   Zone = (if p_utc st \<or> p_zone st = [] then ''UTC'' else p_zone st)\<rparr>)"

definition time_Parse :: "string \<Rightarrow> string \<Rightarrow> error + Time" where
  "time_Parse layout v =
     (case parse_chunks (layout_chunks layout) v pstate0 of
        Inl e \<Rightarrow> Inl e
      | Inr st \<Rightarrow> finish_parse st)"

section \<open>The listing parser (parse.go)\<close>

datatype EntryType = EntryTypeFile | EntryTypeFolder | EntryTypeLink

record Entry =
  Name :: string
  Type :: EntryType
  Size :: "64 word"
  Time :: Time

text \<open>The zero value \<open>Entry{}\<close>.\<close>

definition Entry0 :: Entry where
  "Entry0 = \<lparr>Name = [], Type = EntryTypeFile, Size = 0, Time = zero_Time\<rparr>"

definition dirTimeFormats :: "string list" where
  "dirTimeFormats = [''01-02-06  03:04PM'', ''2006-01-02  15:04'']"

text \<open>\<open>setSize\<close> stores what \<open>ParseUint\<close> returns, also when it returns an error.\<close>

definition setSize :: "Entry \<Rightarrow> string \<Rightarrow> Entry \<times> error option" where
  "setSize e str = (case strconv_ParseUint str 0 of (n, err) \<Rightarrow> (e\<lparr>Size := n\<rparr>, err))"

text \<open>
  \<open>setTime\<close>; \<open>thisYear\<close> is the year of \<open>time.Now()\<close>.  Its callers drop the entry
  when it fails, so the result is the error or the entry with its time set.
\<close>

definition setTime :: "int \<Rightarrow> Entry \<Rightarrow> string list \<Rightarrow> error + Entry" where
  "setTime thisYear e flds =
     (let timeStr =
            (if strings_Contains (flds ! 2) '':'' then
               (case slice (strconv_Itoa thisYear) 2 4 of
                  Inl err \<Rightarrow> Inl err
                | Inr yy \<Rightarrow>
                    Inr (flds ! 1 @ '' '' @ flds ! 0 @ '' '' @ yy @ '' '' @ flds ! 2 @ '' GMT''))
             else if length (flds ! 2) \<noteq> 4 then
               Inl (ErrorString ''Invalid year format in time string'')
             else
               (case slice (flds ! 2) 2 4 of
                  Inl err \<Rightarrow> Inl err
                | Inr yy \<Rightarrow> Inr (flds ! 1 @ '' '' @ flds ! 0 @ '' '' @ yy @ '' 00:00 GMT'')))
      in case timeStr of
           Inl err \<Rightarrow> Inl err
         | Inr str \<Rightarrow>
             (case time_Parse ''_2 Jan 06 15:04 MST'' str of
                Inl err \<Rightarrow> Inl err
              | Inr t \<Rightarrow> Inr (e\<lparr>Time := t\<rparr>)))"

text \<open>The loop of \<open>parseRFC3659ListLine\<close> over the facts.\<close>

fun parseRFC3659_fields :: "string list \<Rightarrow> Entry \<Rightarrow> error + Entry" where
  "parseRFC3659_fields [] e = Inr e"
| "parseRFC3659_fields (field # rest) e =
     (let i = strings_Index field ''=''
      in if i < 1 then Inl errUnsupportedListLine
         else (case slice_to field i of
                 Inl err \<Rightarrow> Inl err
               | Inr key \<Rightarrow>
                   (case slice_from field (i + 1) of
                      Inl err \<Rightarrow> Inl err
                    | Inr val \<Rightarrow>
                        if key = ''modify'' then
                          (case time_Parse ''20060102150405'' val of
                             Inl err \<Rightarrow> Inl err
                           | Inr t \<Rightarrow> parseRFC3659_fields rest (e\<lparr>Time := t\<rparr>))
                        else if key = ''type'' then
                          (if val = ''dir'' \<or> val = ''cdir'' \<or> val = ''pdir''
                           then parseRFC3659_fields rest (e\<lparr>Type := EntryTypeFolder\<rparr>)
                           else if val = ''file''
                           then parseRFC3659_fields rest (e\<lparr>Type := EntryTypeFile\<rparr>)
                           else parseRFC3659_fields rest e)
                        else if key = ''size'' then
                          parseRFC3659_fields rest (fst (setSize e val))
                        else parseRFC3659_fields rest e)))"

definition parseRFC3659ListLine :: "string \<Rightarrow> error + Entry" where
  "parseRFC3659ListLine line =
     (let iSemicolon = strings_Index line '';'';
          iWhitespace = strings_Index line '' ''
      in if iSemicolon < 0 \<or> iWhitespace < iSemicolon then Inl errUnsupportedListLine
         else (case slice_from line (iWhitespace + 1) of
                 Inl err \<Rightarrow> Inl err
               | Inr nm \<Rightarrow>
                   (case slice_to line (iWhitespace - 1) of
                      Inl err \<Rightarrow> Inl err
                    | Inr facts \<Rightarrow>
                        parseRFC3659_fields (strings_Split facts '';'') (Entry0\<lparr>Name := nm\<rparr>))))"

definition parseLsListLine :: "int \<Rightarrow> string \<Rightarrow> error + Entry" where
  "parseLsListLine thisYear line =
     (let flds = strings_Fields line
      in if 7 \<le> length flds \<and> flds ! 1 = ''folder'' \<and> flds ! 2 = ''0'' then
           setTime thisYear
             (Entry0\<lparr>Type := EntryTypeFolder, Name := strings_Join (drop 6 flds) '' ''\<rparr>)
             (take 3 (drop 3 flds))
         else if length flds < 8 then Inl errUnsupportedListLine
         else if flds ! 1 = ''0'' then
           (case setSize (Entry0\<lparr>Type := EntryTypeFile, Name := strings_Join (drop 7 flds) '' ''\<rparr>)
                   (flds ! 2) of
              (e, Some err) \<Rightarrow> Inl err
            | (e, None) \<Rightarrow> setTime thisYear e (take 3 (drop 4 flds)))
         else if length flds < 9 then Inl errUnsupportedListLine
         else
           (let typed =
                  (if hd (flds ! 0) = CHR ''-'' then
                     (case setSize (Entry0\<lparr>Type := EntryTypeFile\<rparr>) (flds ! 4) of
                        (e, Some err) \<Rightarrow> Inl err
                      | (e, None) \<Rightarrow> Inr e)
                   else if hd (flds ! 0) = CHR ''d'' then Inr (Entry0\<lparr>Type := EntryTypeFolder\<rparr>)
                   else if hd (flds ! 0) = CHR ''l'' then Inr (Entry0\<lparr>Type := EntryTypeLink\<rparr>)
                   else Inl (ErrorString ''Unknown entry type''))
            in case typed of
                 Inl err \<Rightarrow> Inl err
               | Inr e \<Rightarrow>
                   (case setTime thisYear e (take 3 (drop 5 flds)) of
                      Inl err \<Rightarrow> Inl err
                    | Inr e' \<Rightarrow> Inr (e'\<lparr>Name := strings_Join (drop 8 flds) '' ''\<rparr>))))"

text \<open>
  The loop of \<open>parseDirListLine\<close> over the time formats: the time, the error of the
  last format tried (none when no format was tried) and the rest of the line.
\<close>

fun try_formats :: "string list \<Rightarrow> string \<Rightarrow> Time \<Rightarrow> error option \<Rightarrow> Time \<times> error option \<times> string"
  where
  "try_formats [] line t err = (t, err, line)"
| "try_formats (format # fs) line t err =
     (if length format < length line then
        (case time_Parse format (take (length format) line) of
           Inr t' \<Rightarrow> (t', None, drop (length format) line)
         | Inl err' \<Rightarrow> try_formats fs line zero_Time (Some err'))
      else try_formats fs line t err)"

definition parseDirListLine :: "string \<Rightarrow> error + Entry" where
  "parseDirListLine line0 =
     (case try_formats dirTimeFormats line0 zero_Time None of
        (t, Some err, line) \<Rightarrow> Inl errUnsupportedListLine
      | (t, None, line1) \<Rightarrow>
          (let e = Entry0\<lparr>Time := t\<rparr>;
               line = strings_TrimLeft line1 '' ''
           in if strings_HasPrefix line ''<DIR>'' then
                Inr (e\<lparr>Type := EntryTypeFolder,
                       Name := strings_TrimLeft (strings_TrimPrefix line ''<DIR>'') '' ''\<rparr>)
              else
                (let space = strings_Index line '' ''
                 in if space = - 1 then Inl errUnsupportedListLine
                    else (case slice_to line space of
                            Inl err \<Rightarrow> Inl err
                          | Inr num \<Rightarrow>
                              (case strconv_ParseUint num 10 of
                                 (n, Some err) \<Rightarrow> Inl errUnsupportedListLine
                               | (n, None) \<Rightarrow>
                                   (case slice_from line space of
                                      Inl err \<Rightarrow> Inl err
                                    | Inr rest \<Rightarrow>
                                        Inr (e\<lparr>Size := n, Type := EntryTypeFile,
                                               Name := strings_TrimLeft rest '' ''\<rparr>)))))))"

text \<open>
  \<open>parseListLine\<close>: the recognizers in the order of \<open>listLineParsers\<close>; the first
  result whose error is not \<open>errUnsupportedListLine\<close> is returned.
\<close>

fun parseListLine_loop :: "(string \<Rightarrow> error + Entry) list \<Rightarrow> string \<Rightarrow> error + Entry" where
  "parseListLine_loop [] line = Inl errUnsupportedListLine"
| "parseListLine_loop (f # fs) line =
     (case f line of
        Inr e \<Rightarrow> Inr e
      | Inl err \<Rightarrow> if err \<noteq> errUnsupportedListLine then Inl err else parseListLine_loop fs line)"

definition listLineParsers :: "int \<Rightarrow> (string \<Rightarrow> error + Entry) list" where
  "listLineParsers thisYear = [parseRFC3659ListLine, parseLsListLine thisYear, parseDirListLine]"

definition parseListLine :: "int \<Rightarrow> string \<Rightarrow> error + Entry" where
  "parseListLine thisYear line = parseListLine_loop (listLineParsers thisYear) line"

section \<open>The control connection (net/textproto) and the network\<close>

text \<open>
  What the program does to the outside is recorded as a trace of events; what the outside
  answers is a script in the state: the result of each write of a command line, each line
  (or read error) the server sends on the control connection, the result of closing it,
  and the result of each dial of a data connection.  Reading past the end of the script
  of lines is \<open>EOF\<close>; a write or a dial past the end of its script succeeds, respectively
  is refused.
\<close>

datatype event =
    CmdSent string
  | RespRead int
  | CtrlClose
  | DataDial string int
  | DataCopy
  | DataScan
  | DataClose

text \<open>
  A data connection: the lines a \<open>bufio.Scanner\<close> reads from it, the error the scanner
  ends with, the error of writing to it, and the result of closing it.
\<close>

record dconn =
  d_lines :: "string list"
  d_scan_err :: "error option"
  d_write_err :: "error option"
  d_close_err :: "error option"

record world =
  cmd_errs :: "error option list"
  ctrl_in :: "(error + string) list"
  ctrl_close_err :: "error option"
  dial_results :: "(error + dconn) list"
  now_year :: int
  trace :: "event list"

definition log_event :: "event \<Rightarrow> world \<Rightarrow> world" where
  "log_event ev w = w\<lparr>trace := trace w @ [ev]\<rparr>"

text \<open>\<open>textproto.Conn.Cmd\<close>: one command line written.\<close>

definition conn_Cmd :: "string \<Rightarrow> world \<Rightarrow> error option \<times> world" where
  "conn_Cmd line w =
     (case cmd_errs w of
        [] \<Rightarrow> (None, log_event (CmdSent line) w)
      | r # rs \<Rightarrow> (r, log_event (CmdSent line) (w\<lparr>cmd_errs := rs\<rparr>)))"

text \<open>\<open>parseCodeLine\<close>: the code, whether the reply continues, the message, the error.\<close>

definition parseCodeLine :: "string \<Rightarrow> int \<Rightarrow> int \<times> bool \<times> string \<times> error option" where
  "parseCodeLine line expectCode =
     (if length line < 4 \<or> (line ! 3 \<noteq> CHR '' '' \<and> line ! 3 \<noteq> CHR ''-'')
      then (0, False, [], Some (ProtocolError (''short response: '' @ line)))
      else
        (let continued = (line ! 3 = CHR ''-'')
         in case strconv_Atoi (take 3 line) of
              Inl err \<Rightarrow> (0, continued, [], Some (ProtocolError (''invalid response code: '' @ line)))
            | Inr code \<Rightarrow>
                if code < 100
                then (code, continued, [], Some (ProtocolError (''invalid response code: '' @ line)))
                else if (1 \<le> expectCode \<and> expectCode < 10 \<and> code div 100 \<noteq> expectCode) \<or>
                        (10 \<le> expectCode \<and> expectCode < 100 \<and> code div 10 \<noteq> expectCode) \<or>
                        (100 \<le> expectCode \<and> expectCode < 1000 \<and> code \<noteq> expectCode)
                then (code, continued, drop 4 line, Some (TextprotoError code (drop 4 line)))
                else (code, continued, drop 4 line, None)))"

definition trimRightCRLF :: "string \<Rightarrow> string" where
  "trimRightCRLF s = rev (dropWhile (\<lambda>c. c = CHR 0x0D \<or> c = CHR 0x0A) (rev s))"

text \<open>
  The loop of \<open>ReadResponse\<close> over the lines of a multi-line reply: lines are added to
  the message until one carries the same code followed by a space.
\<close>

fun read_continuation ::
  "int \<Rightarrow> string \<Rightarrow> (error + string) list \<Rightarrow> (error + string) \<times> (error + string) list" where
  "read_continuation code msg [] = (Inl EOF, [])"
| "read_continuation code msg (Inl err # rest) = (Inl err, rest)"
| "read_continuation code msg (Inr line # rest) =
     (case parseCodeLine line 0 of
        (code2, continued, moreMessage, err) \<Rightarrow>
          if err \<noteq> None \<or> code2 \<noteq> code
          then read_continuation code (msg @ [CHR 0x0A] @ trimRightCRLF line) rest
          else if continued then read_continuation code (msg @ [CHR 0x0A] @ moreMessage) rest
          else (Inr (msg @ [CHR 0x0A] @ moreMessage), rest))"

text \<open>
  \<open>textproto.Conn.ReadResponse\<close>: one reply read, whatever it is.  Its callers use the
  code and the message only when there is no error.
\<close>

definition conn_ReadResponse :: "int \<Rightarrow> world \<Rightarrow> (error + int \<times> string) \<times> world" where
  "conn_ReadResponse expectCode w0 =
     (let w = log_event (RespRead expectCode) w0
      in case ctrl_in w of
           [] \<Rightarrow> (Inl EOF, w)
         | Inl err # rest \<Rightarrow> (Inl err, w\<lparr>ctrl_in := rest\<rparr>)
         | Inr line # rest \<Rightarrow>
             (case parseCodeLine line expectCode of
                (code, continued, message, err) \<Rightarrow>
                  if \<not> continued then
                    ((case err of Some e \<Rightarrow> Inl e | None \<Rightarrow> Inr (code, message)),
                     w\<lparr>ctrl_in := rest\<rparr>)
                  else
                    (case read_continuation code message rest of
                       (Inl e, rest') \<Rightarrow> (Inl e, w\<lparr>ctrl_in := rest'\<rparr>)
                     | (Inr msg, rest') \<Rightarrow>
                         ((case err of
                             Some e \<Rightarrow> Inl (if msg \<noteq> [] then TextprotoError code msg else e)
                           | None \<Rightarrow> Inr (code, msg)),
                          w\<lparr>ctrl_in := rest'\<rparr>))))"

definition conn_Close :: "world \<Rightarrow> error option \<times> world" where
  "conn_Close w = (ctrl_close_err w, log_event CtrlClose w)"

text \<open>\<open>net.JoinHostPort\<close> and \<open>net.DialTimeout\<close>, and closing a data connection.\<close>

definition net_JoinHostPort :: "string \<Rightarrow> string \<Rightarrow> string" where
  "net_JoinHostPort h port =
     (if CHR '':'' \<in> set h then ''['' @ h @ '']:'' @ port else h @ '':'' @ port)"

definition net_DialTimeout :: "string \<Rightarrow> int \<Rightarrow> world \<Rightarrow> (error + dconn) \<times> world" where
  "net_DialTimeout addr tmo w =
     (case dial_results w of
        [] \<Rightarrow> (Inl (NetError ''connection refused''), log_event (DataDial addr tmo) w)
      | r # rs \<Rightarrow> (r, log_event (DataDial addr tmo) (w\<lparr>dial_results := rs\<rparr>)))"

definition dconn_Close :: "dconn \<Rightarrow> world \<Rightarrow> error option \<times> world" where
  "dconn_Close conn w = (d_close_err conn, log_event DataClose w)"

section \<open>The client\<close>

text \<open>
  Modelled from the spec: the file of status constants is not among the sources; these
  are the codes that section 6 of the specification lists.
\<close>

definition StatusAlreadyOpen :: int where "StatusAlreadyOpen = 125"
definition StatusAboutToSend :: int where "StatusAboutToSend = 150"
definition StatusCommandOK :: int where "StatusCommandOK = 200"
definition StatusSystem :: int where "StatusSystem = 211"
definition StatusReady :: int where "StatusReady = 220"
definition StatusClosingDataConnection :: int where "StatusClosingDataConnection = 226"
definition StatusPassiveMode :: int where "StatusPassiveMode = 227"
definition StatusExtendedPassiveMode :: int where "StatusExtendedPassiveMode = 229"
definition StatusRequestFilePending :: int where "StatusRequestFilePending = 350"
definition StatusCommandNotImplemented :: int where "StatusCommandNotImplemented = 202"
definition StatusFile :: int where "StatusFile = 213"
definition StatusLoggedIn :: int where "StatusLoggedIn = 230"
definition StatusRequestedFileActionOK :: int where "StatusRequestedFileActionOK = 250"
definition StatusPathCreated :: int where "StatusPathCreated = 257"
definition StatusUserOK :: int where "StatusUserOK = 331"

text \<open>The fields of \<open>client\<close> but the connection, which is the world above.\<close>

record client =
  mlst :: bool
  unepsv :: bool
  host :: string
  timeout :: int
  features :: "string \<rightharpoonup> string"

text \<open>\<open>cmd\<close>: a command written, then one reply read; the command line comes formatted.\<close>

definition cmd :: "int \<Rightarrow> string \<Rightarrow> world \<Rightarrow> (error + int \<times> string) \<times> world" where
  "cmd expected line w =
     (case conn_Cmd line w of
        (Some err, w') \<Rightarrow> (Inl err, w')
      | (None, w') \<Rightarrow> conn_ReadResponse expected w')"

subsection \<open>The data connection (dataConn.go)\<close>

text \<open>Go's \<open>int\<close> has 64 bits: arithmetic on it wraps.\<close>

definition wrap64 :: "int \<Rightarrow> int" where
  "wrap64 x = (x + 9223372036854775808) mod 18446744073709551616 - 9223372036854775808"

definition epsv :: "world \<Rightarrow> (error + int) \<times> world" where
  "epsv w =
     (case cmd StatusExtendedPassiveMode ''EPSV'' w of
        (Inl err, w') \<Rightarrow> (Inl err, w')
      | (Inr (code, line), w') \<Rightarrow>
          (let start = strings_Index line ''|||'';
               end = strings_LastIndex line ''|''
           in if start = - 1 \<or> end = - 1
              then (Inl (ErrorString ''Invalid EPSV response format''), w')
              else (case slice line (start + 3) end of
                      Inl err \<Rightarrow> (Inl err, w')
                    | Inr digits \<Rightarrow> (strconv_Atoi digits, w'))))"

definition pasv :: "world \<Rightarrow> (error + int) \<times> world" where
  "pasv w =
     (case cmd StatusPassiveMode ''PASV'' w of
        (Inl err, w') \<Rightarrow> (Inl err, w')
      | (Inr (code, line), w') \<Rightarrow>
          (let start = strings_Index line ''('';
               end = strings_LastIndex line '')''
           in if start = - 1 \<or> end = - 1
              then (Inl (ErrorString ''Invalid PASV response format''), w')
              else (case slice line (start + 1) end of
                      Inl err \<Rightarrow> (Inl err, w')
                    | Inr inner \<Rightarrow>
                        (let pasvData = strings_Split inner '',''
                         in if length pasvData < 6
                            then (Inl (ErrorString ''Invalid PASV response format''), w')
                            else (case strconv_Atoi (pasvData ! 4) of
                                    Inl err1 \<Rightarrow> (Inl err1, w')
                                  | Inr portPart1 \<Rightarrow>
                                      (case strconv_Atoi (pasvData ! 5) of
                                         Inl err2 \<Rightarrow> (Inl err2, w')
                                       | Inr portPart2 \<Rightarrow>
                                           (Inr (wrap64 (wrap64 (portPart1 * 256) + portPart2)),
                                            w')))))))"

text \<open>
  \<open>getDataConnPort\<close>.  A panic inside \<open>epsv\<close> is not an error that \<open>epsv\<close> returns:
  it unwinds through \<open>getDataConnPort\<close>, which then neither sets the flag nor calls
  \<open>pasv\<close>.
\<close>

definition getDataConnPort :: "client \<Rightarrow> world \<Rightarrow> (error + int) \<times> client \<times> world" where
  "getDataConnPort c w =
     (if \<not> unepsv c then
        (case epsv w of
           (Inr port, w') \<Rightarrow> (Inr port, c, w')
         | (Inl Panic, w') \<Rightarrow> (Inl Panic, c, w')
         | (Inl err, w') \<Rightarrow> (case pasv w' of (r, w'') \<Rightarrow> (r, c\<lparr>unepsv := True\<rparr>, w'')))
      else (case pasv w of (r, w') \<Rightarrow> (r, c, w')))"

definition openDataConn :: "client \<Rightarrow> world \<Rightarrow> (error + dconn) \<times> client \<times> world" where
  "openDataConn c w =
     (case getDataConnPort c w of
        (Inl err, c', w') \<Rightarrow> (Inl err, c', w')
      | (Inr port, c', w') \<Rightarrow>
          (case net_DialTimeout (net_JoinHostPort (host c') (strconv_Itoa port)) (timeout c') w' of
             (r, w'') \<Rightarrow> (r, c', w'')))"

subsection \<open>Commands with a data connection\<close>

text \<open>
  \<open>cmdDataConnFrom\<close>; \<open>line\<close> is the formatted command.  Every error path after the
  data connection is open closes it.
\<close>

definition cmdDataConnFrom ::
  "64 word \<Rightarrow> string \<Rightarrow> client \<Rightarrow> world \<Rightarrow> (error + dconn) \<times> client \<times> world" where
  "cmdDataConnFrom offset line c w =
     (case openDataConn c w of
        (Inl err, c1, w1) \<Rightarrow> (Inl err, c1, w1)
      | (Inr conn, c1, w1) \<Rightarrow>
          (case (if offset \<noteq> 0
                 then (case cmd StatusRequestFilePending (''REST '' @ itoa_nat (unat offset)) w1 of
                         (Inl err, w2) \<Rightarrow> (Some err, w2)
                       | (Inr r, w2) \<Rightarrow> (None, w2))
                 else (None, w1)) of
             (Some err, w2) \<Rightarrow> (Inl err, c1, snd (dconn_Close conn w2))
           | (None, w2) \<Rightarrow>
               (case conn_Cmd line w2 of
                  (Some err, w3) \<Rightarrow> (Inl err, c1, snd (dconn_Close conn w3))
                | (None, w3) \<Rightarrow>
                    (case conn_ReadResponse (- 1) w3 of
                       (Inl err, w4) \<Rightarrow> (Inl err, c1, snd (dconn_Close conn w4))
                     | (Inr (code, msg), w4) \<Rightarrow>
                         if code \<noteq> StatusAlreadyOpen \<and> code \<noteq> StatusAboutToSend
                         then (Inl (TextprotoError code msg), c1, snd (dconn_Close conn w4))
                         else (Inr conn, c1, w4)))))"

text \<open>\<open>response.Close\<close>: the data connection closed, then one reply read.\<close>

definition response_Close :: "dconn \<Rightarrow> world \<Rightarrow> error option \<times> world" where
  "response_Close conn w =
     (case dconn_Close conn w of
        (err, w1) \<Rightarrow>
          (case conn_ReadResponse StatusClosingDataConnection w1 of
             (Inl err2, w2) \<Rightarrow> (Some err2, w2)
           | (Inr r, w2) \<Rightarrow> (err, w2)))"

text \<open>
  The caller's \<open>io.Reader\<close>: the bytes it yields and the error it ends with.  \<open>io.Copy\<close>
  returns the connection's write error when there was something to write and the write
  failed, else the reader's error.
\<close>

record reader =
  r_data :: string
  r_err :: "error option"

definition io_Copy :: "dconn \<Rightarrow> reader \<Rightarrow> world \<Rightarrow> error option \<times> world" where
  "io_Copy conn r w =
     ((if r_data r \<noteq> [] \<and> d_write_err conn \<noteq> None then d_write_err conn else r_err r),
      log_event DataCopy w)"

definition StorFrom ::
  "string \<Rightarrow> reader \<Rightarrow> 64 word \<Rightarrow> client \<Rightarrow> world \<Rightarrow> error option \<times> client \<times> world" where
  "StorFrom path r offset c w =
     (case cmdDataConnFrom offset (''STOR '' @ path) c w of
        (Inl err, c1, w1) \<Rightarrow> (Some err, c1, w1)
      | (Inr conn, c1, w1) \<Rightarrow>
          (case io_Copy conn r w1 of
             (err, w2) \<Rightarrow>
               (case dconn_Close conn w2 of
                  (closeErr, w3) \<Rightarrow>
                    if err \<noteq> None then (err, c1, w3)
                    else (case conn_ReadResponse StatusClosingDataConnection w3 of
                            (Inl err', w4) \<Rightarrow> (Some err', c1, w4)
                          | (Inr r', w4) \<Rightarrow> (None, c1, w4)))))"

definition Stor :: "string \<Rightarrow> reader \<Rightarrow> client \<Rightarrow> world \<Rightarrow> error option \<times> client \<times> world" where
  "Stor path r c w = StorFrom path r 0 c w"

definition RetrFrom ::
  "string \<Rightarrow> 64 word \<Rightarrow> client \<Rightarrow> world \<Rightarrow> (error + dconn) \<times> client \<times> world" where
  "RetrFrom path offset c w = cmdDataConnFrom offset (''RETR '' @ path) c w"

definition Retr :: "string \<Rightarrow> client \<Rightarrow> world \<Rightarrow> (error + dconn) \<times> client \<times> world" where
  "Retr path c w = RetrFrom path 0 c w"

text \<open>
  \<open>NameList\<close> and \<open>List\<close>: the scanner's lines, then the deferred \<open>response.Close\<close>,
  whose result is dropped.
\<close>

definition NameList ::
  "string \<Rightarrow> client \<Rightarrow> world \<Rightarrow> (string list \<times> error option) \<times> client \<times> world" where
  "NameList path c w =
     (case cmdDataConnFrom 0 (''NLST '' @ path) c w of
        (Inl err, c1, w1) \<Rightarrow> (([], Some err), c1, w1)
      | (Inr conn, c1, w1) \<Rightarrow>
          ((d_lines conn, d_scan_err conn), c1,
           snd (response_Close conn (log_event DataScan w1))))"

fun List_loop :: "(string \<Rightarrow> error + Entry) \<Rightarrow> string list \<Rightarrow> Entry list" where
  "List_loop parseFunc [] = []"
| "List_loop parseFunc (l # ls) =
     (case parseFunc l of
        Inr entry \<Rightarrow> entry # List_loop parseFunc ls
      | Inl err \<Rightarrow> List_loop parseFunc ls)"

definition List_cmd ::
  "string \<Rightarrow> client \<Rightarrow> world \<Rightarrow> (Entry list \<times> error option) \<times> client \<times> world" where
  "List_cmd path c w =
     (let (command, parseFunc) =
            (if mlst c then (''MLSD'', parseRFC3659ListLine)
             else (''LIST'', parseListLine (now_year w)))
      in case cmdDataConnFrom 0 (command @ '' '' @ path) c w of
           (Inl err, c1, w1) \<Rightarrow> (([], Some err), c1, w1)
         | (Inr conn, c1, w1) \<Rightarrow>
             ((List_loop parseFunc (d_lines conn), d_scan_err conn), c1,
              snd (response_Close conn (log_event DataScan w1))))"

subsection \<open>Feature negotiation and teardown\<close>

fun feat_lines :: "string list \<Rightarrow> (string \<rightharpoonup> string) \<Rightarrow> (string \<rightharpoonup> string)" where
  "feat_lines [] m = m"
| "feat_lines (line # ls) m =
     (if \<not> strings_HasPrefix line '' '' then feat_lines ls m
      else (let fs = strings_SplitN (strings_TrimSpace line) '' '' 2;
                command = fs ! 0;
                commandDesc = (if length fs = 2 then fs ! 1 else [])
            in feat_lines ls (m(command \<mapsto> commandDesc))))"

definition feat :: "client \<Rightarrow> world \<Rightarrow> error option \<times> client \<times> world" where
  "feat c w =
     (case cmd (- 1) ''FEAT'' w of
        (Inl err, w1) \<Rightarrow> (Some err, c, w1)
      | (Inr (code, message), w1) \<Rightarrow>
          if code \<noteq> StatusSystem then (None, c, w1)
          else (None, c\<lparr>features := feat_lines (strings_Split message [CHR 0x0A]) (features c)\<rparr>, w1))"

text \<open>\<open>Close\<close>: three steps, each error overwriting the one before.\<close>

definition Close :: "world \<Rightarrow> error option \<times> world" where
  "Close w =
     (case cmd StatusReady ''REIN'' w of
        (r, w1) \<Rightarrow>
          (let err1 = (case r of Inl reinErr \<Rightarrow> Some reinErr | Inr x \<Rightarrow> None)
           in case conn_Cmd ''QUIT'' w1 of
                (quitErr, w2) \<Rightarrow>
                  (let err2 = (if quitErr \<noteq> None then quitErr else err1)
                   in case conn_Close w2 of
                        (closeErr, w3) \<Rightarrow> ((if closeErr \<noteq> None then closeErr else err2), w3))))"

text \<open>
  \<open>DialTimeout\<close> once the control connection is established and its remote address is
  split into the resolved host \<open>h\<close>: the greeting, then the features.
\<close>

definition DialTimeout :: "string \<Rightarrow> int \<Rightarrow> world \<Rightarrow> (error + client) \<times> world" where
  "DialTimeout h tmo w =
     (let c = \<lparr>mlst = False, unepsv = False, host = h, timeout = tmo, features = Map.empty\<rparr>
      in case conn_ReadResponse StatusReady w of
           (Inl err, w1) \<Rightarrow> (Inl err, snd (Close w1))
         | (Inr r, w1) \<Rightarrow>
             (case feat c w1 of
                (Some err, c1, w2) \<Rightarrow> (Inl err, snd (Close w2))
              | (None, c1, w2) \<Rightarrow>
                  (Inr (if features c1 ''MLST'' \<noteq> None then c1\<lparr>mlst := True\<rparr> else c1), w2)))"

subsection \<open>Commands on the control connection alone\<close>

definition err_of :: "(error + 'a) \<times> world \<Rightarrow> error option \<times> world" where
  "err_of rw = (case rw of (Inl err, w) \<Rightarrow> (Some err, w) | (Inr r, w) \<Rightarrow> (None, w))"

definition ChangeDir :: "string \<Rightarrow> world \<Rightarrow> error option \<times> world" where
  "ChangeDir path w = err_of (cmd StatusRequestedFileActionOK (''CWD '' @ path) w)"

definition ChangeDirToParent :: "world \<Rightarrow> error option \<times> world" where
  "ChangeDirToParent w = err_of (cmd StatusRequestedFileActionOK ''CDUP'' w)"

definition CurrentDir :: "world \<Rightarrow> (error + string) \<times> world" where
  "CurrentDir w =
     (case cmd StatusPathCreated ''PWD'' w of
        (Inl err, w') \<Rightarrow> (Inl err, w')
      | (Inr (code, msg), w') \<Rightarrow>
          (let start = strings_Index msg [CHR 0x22];
               end = strings_LastIndex msg [CHR 0x22]
           in if start = - 1 \<or> end = - 1
              then (Inl (ErrorString ''Unsuported PWD response format''), w')
              else (slice msg (start + 1) end, w')))"

text \<open>\<open>strconv.ParseInt(msg, 10, 64)\<close> reads what \<open>strconv.Atoi\<close> reads.\<close>

definition FileSize :: "string \<Rightarrow> world \<Rightarrow> (error + int) \<times> world" where
  "FileSize path w =
     (case cmd StatusFile (''SIZE '' @ path) w of
        (Inl err, w') \<Rightarrow> (Inl err, w')
      | (Inr (code, msg), w') \<Rightarrow> (strconv_Atoi msg, w'))"

definition Rename :: "string \<Rightarrow> string \<Rightarrow> world \<Rightarrow> error option \<times> world" where
  "Rename from to w =
     (case cmd StatusRequestFilePending (''RNFR '' @ from) w of
        (Inl err, w') \<Rightarrow> (Some err, w')
      | (Inr r, w') \<Rightarrow> err_of (cmd StatusRequestedFileActionOK (''RNTO '' @ to) w'))"

definition Remove :: "string \<Rightarrow> world \<Rightarrow> error option \<times> world" where
  "Remove path w = err_of (cmd StatusRequestedFileActionOK (''DELE '' @ path) w)"

definition MakeDir :: "string \<Rightarrow> world \<Rightarrow> error option \<times> world" where
  "MakeDir path w = err_of (cmd StatusPathCreated (''MKD '' @ path) w)"

definition RemoveDir :: "string \<Rightarrow> world \<Rightarrow> error option \<times> world" where
  "RemoveDir path w = err_of (cmd StatusRequestedFileActionOK (''RMD '' @ path) w)"

definition NoOp :: "world \<Rightarrow> error option \<times> world" where
  "NoOp w = err_of (cmd StatusCommandOK ''NOOP'' w)"

definition setUTF8 :: "client \<Rightarrow> world \<Rightarrow> error option \<times> world" where
  "setUTF8 c w =
     (if features c ''UTF8'' = None then (None, w)
      else (case cmd (- 1) ''OPTS UTF8 ON'' w of
              (Inl err, w') \<Rightarrow> (Some err, w')
            | (Inr (code, message), w') \<Rightarrow>
                if code = StatusCommandNotImplemented then (None, w')
                else if code \<noteq> StatusCommandOK then (Some (ErrorString message), w')
                else (None, w')))"

definition Login :: "string \<Rightarrow> string \<Rightarrow> client \<Rightarrow> world \<Rightarrow> error option \<times> world" where
  "Login user password c w =
     (case cmd (- 1) (''USER '' @ user) w of
        (Inl err, w1) \<Rightarrow> (Some err, w1)
      | (Inr (code, message), w1) \<Rightarrow>
          (case (if code = StatusLoggedIn then (None, w1)
                 else if code = StatusUserOK
                 then err_of (cmd StatusLoggedIn (''PASS '' @ password) w1)
                 else (Some (ErrorString message), w1)) of
             (Some err, w2) \<Rightarrow> (Some err, w2)
           | (None, w2) \<Rightarrow>
               (case cmd StatusCommandOK ''TYPE I'' w2 of
                  (Inl err, w3) \<Rightarrow> (Some err, w3)
                | (Inr r, w3) \<Rightarrow> setUTF8 c w3)))"

section \<open>Sessions\<close>

text \<open>
  A session is a client, its connection, and the download responses the caller holds
  open; the caller runs operations one after the other.  A panic ends the session: no
  operation runs after it.  (The wrappers \<open>Delete\<close>, \<open>Upload\<close> and \<open>Names\<close> of ftp.go
  are compositions of the operations below.)
\<close>

datatype op =
    OpLogin string string
  | OpChangeDir string
  | OpChangeDirToParent
  | OpCurrentDir
  | OpFileSize string
  | OpRename string string
  | OpRemove string
  | OpMakeDir string
  | OpRemoveDir string
  | OpNoOp
  | OpNameList string
  | OpList string
  | OpRetrFrom string "64 word"
  | OpResponseClose
  | OpStorFrom string reader "64 word"

record session =
  s_client :: client
  s_world :: world
  s_open :: "dconn list"
  s_panicked :: bool

definition settle :: "session \<Rightarrow> error option \<Rightarrow> world \<Rightarrow> session" where
  "settle s err w = s\<lparr>s_world := w, s_panicked := (err = Some Panic)\<rparr>"

definition settle_client :: "session \<Rightarrow> error option \<Rightarrow> client \<Rightarrow> world \<Rightarrow> session" where
  "settle_client s err c w = s\<lparr>s_client := c, s_world := w, s_panicked := (err = Some Panic)\<rparr>"

definition sum_err :: "error + 'a \<Rightarrow> error option" where
  "sum_err r = (case r of Inl err \<Rightarrow> Some err | Inr x \<Rightarrow> None)"

fun perform :: "op \<Rightarrow> session \<Rightarrow> session" where
  "perform (OpLogin user password) s =
     (case Login user password (s_client s) (s_world s) of (err, w) \<Rightarrow> settle s err w)"
| "perform (OpChangeDir path) s =
     (case ChangeDir path (s_world s) of (err, w) \<Rightarrow> settle s err w)"
| "perform OpChangeDirToParent s =
     (case ChangeDirToParent (s_world s) of (err, w) \<Rightarrow> settle s err w)"
| "perform OpCurrentDir s =
     (case CurrentDir (s_world s) of (r, w) \<Rightarrow> settle s (sum_err r) w)"
| "perform (OpFileSize path) s =
     (case FileSize path (s_world s) of (r, w) \<Rightarrow> settle s (sum_err r) w)"
| "perform (OpRename from to) s =
     (case Rename from to (s_world s) of (err, w) \<Rightarrow> settle s err w)"
| "perform (OpRemove path) s =
     (case Remove path (s_world s) of (err, w) \<Rightarrow> settle s err w)"
| "perform (OpMakeDir path) s =
     (case MakeDir path (s_world s) of (err, w) \<Rightarrow> settle s err w)"
| "perform (OpRemoveDir path) s =
     (case RemoveDir path (s_world s) of (err, w) \<Rightarrow> settle s err w)"
| "perform OpNoOp s =
     (case NoOp (s_world s) of (err, w) \<Rightarrow> settle s err w)"
| "perform (OpNameList path) s =
     (case NameList path (s_client s) (s_world s) of
        ((entries, err), c, w) \<Rightarrow> settle_client s err c w)"
| "perform (OpList path) s =
     (case List_cmd path (s_client s) (s_world s) of
        ((entries, err), c, w) \<Rightarrow> settle_client s err c w)"
| "perform (OpRetrFrom path offset) s =
     (case RetrFrom path offset (s_client s) (s_world s) of
        (Inl err, c, w) \<Rightarrow> settle_client s (Some err) c w
      | (Inr conn, c, w) \<Rightarrow> (settle_client s None c w)\<lparr>s_open := conn # s_open s\<rparr>)"
| "perform OpResponseClose s =
     (case s_open s of
        [] \<Rightarrow> s
      | conn # conns \<Rightarrow>
          (case response_Close conn (s_world s) of
             (err, w) \<Rightarrow> (settle s err w)\<lparr>s_open := conns\<rparr>))"
| "perform (OpStorFrom path r offset) s =
     (case StorFrom path r offset (s_client s) (s_world s) of
        (err, c, w) \<Rightarrow> settle_client s err c w)"

definition step :: "op \<Rightarrow> session \<Rightarrow> session" where
  "step x s = (if s_panicked s then s else perform x s)"

fun run :: "op list \<Rightarrow> session \<Rightarrow> session" where
  "run [] s = s"
| "run (x # xs) s = run xs (step x s)"

text \<open>The events a run adds to the trace.\<close>

definition new_events :: "world \<Rightarrow> world \<Rightarrow> event list" where
  "new_events w w' = drop (length (trace w)) (trace w')"

section \<open>Concrete inputs\<close>


text \<open>
  A line of structured facts written from its facts, each a key and a value:
  \<open>key=value;\<close> for each fact, a space, the name.
\<close>

type_synonym fact = "string \<times> string"

definition fact_text :: "fact \<Rightarrow> string" where
  "fact_text f = fst f @ ''='' @ snd f"

definition facts_line :: "fact list \<Rightarrow> string \<Rightarrow> string" where
  "facts_line fs name = concat (map (\<lambda>f. fact_text f @ '';'') fs) @ '' '' @ name"

text \<open>
  A well-formed fact: a non-empty key free of \<open>;\<close>, \<open>=\<close> and space, a value free of
  \<open>;\<close> and space.  It is unrecognized when its key is none of the three the parser
  reads.
\<close>

definition clean_fact :: "fact \<Rightarrow> bool" where
  "clean_fact f =
     (fst f \<noteq> [] \<and> list_all (\<lambda>c. c \<notin> set '';= '') (fst f) \<and>
      list_all (\<lambda>c. c \<notin> set ''; '') (snd f))"

definition unrecognized :: "fact \<Rightarrow> bool" where
  "unrecognized f =
     (clean_fact f \<and> fst f \<noteq> ''modify'' \<and> fst f \<noteq> ''type'' \<and> fst f \<noteq> ''size'')"

definition report_time :: Time where
  "report_time = \<lparr>Year = 2020, Month = 1, Day = 1, Hour = 12, Minute = 0, Second = 0,
                   Nanosecond = 0, Zone = ''UTC''\<rparr>"

definition report_facts :: "fact list" where
  "report_facts = [(''type'', ''file''), (''size'', ''12345''), (''modify'', ''20200101120000'')]"

definition report_entry :: Entry where
  "report_entry = \<lparr>Name = ''report.txt'', Type = EntryTypeFile, Size = 12345, Time = report_time\<rparr>"

text \<open>Lines for the recognizer chain.\<close>

definition malformed_ls_line :: string where
  "malformed_ls_line = ''x 1 2 3 4 5 6 7 8''"

definition dir_line_with_nine_fields :: string where
  "dir_line_with_nine_fields = ''01-01-20  10:00AM 1024 a b c d e f g''"

text \<open>The reply to FEAT of the specification, a reply without features, a new client.\<close>

definition feat_reply_lines :: "string list" where
  "feat_reply_lines = [''211-Features:'', '' MLST'', '' SIZE'', ''211 End'']"

definition w_feat :: world where
  "w_feat = \<lparr>cmd_errs = [], ctrl_in = map Inr feat_reply_lines, ctrl_close_err = None,
             dial_results = [], now_year = 2017, trace = []\<rparr>"

definition w_no_feat :: world where
  "w_no_feat = \<lparr>cmd_errs = [], ctrl_in = [Inr ''502 Command not implemented''],
                ctrl_close_err = None, dial_results = [], now_year = 2017, trace = []\<rparr>"

definition c_fresh :: client where
  "c_fresh = \<lparr>mlst = False, unepsv = False, host = ''10.0.0.5'', timeout = 0, features = Map.empty\<rparr>"

text \<open>Data connections, connections with their scripts, a reader that fails, a client in legacy mode.\<close>

definition conn_ok :: dconn where
  "conn_ok = \<lparr>d_lines = [], d_scan_err = None, d_write_err = None, d_close_err = None\<rparr>"

definition conn_broken :: dconn where
  "conn_broken = \<lparr>d_lines = [''a.txt''], d_scan_err = Some (NetError ''connection reset''),
                 d_write_err = None, d_close_err = None\<rparr>"

definition w_nlst :: world where
  "w_nlst = \<lparr>cmd_errs = [],
             ctrl_in = [Inr ''227 Entering Passive Mode (192,168,1,1,200,13).'',
                        Inr ''150 Here comes the listing'', Inr ''226 Directory send OK''],
             ctrl_close_err = None, dial_results = [Inr conn_broken], now_year = 2017,
             trace = []\<rparr>"

definition w_stor :: world where
  "w_stor = \<lparr>cmd_errs = [],
             ctrl_in = [Inr ''229 Entering Extended Passive Mode (|||51213|)'',
                        Inr ''150 Ok to send data'', Inr ''226 Transfer complete''],
             ctrl_close_err = None, dial_results = [Inr conn_ok], now_year = 2017,
             trace = []\<rparr>"

definition w_refused :: world where
  "w_refused = \<lparr>cmd_errs = [],
                ctrl_in = [Inr ''227 Entering Passive Mode (192,168,1,1,200,13).'',
                           Inr ''550 Permission denied''],
                ctrl_close_err = None, dial_results = [Inr conn_ok], now_year = 2017,
                trace = []\<rparr>"

definition w_no_restart :: world where
  "w_no_restart = \<lparr>cmd_errs = [],
                   ctrl_in = [Inr ''227 Entering Passive Mode (192,168,1,1,200,13).'',
                              Inr ''502 REST not implemented''],
                   ctrl_close_err = None, dial_results = [Inr conn_ok], now_year = 2017,
                   trace = []\<rparr>"

definition failing_reader :: reader where
  "failing_reader = \<lparr>r_data = ''abc'', r_err = Some (ErrorString ''read failed'')\<rparr>"

definition c_legacy :: client where
  "c_legacy = \<lparr>mlst = False, unepsv = True, host = ''10.0.0.5'', timeout = 0, features = Map.empty\<rparr>"

definition w_pasv :: world where
  "w_pasv = \<lparr>cmd_errs = [], ctrl_in = [Inr ''227 Entering Passive Mode (192,168,1,1,200,13).''],
             ctrl_close_err = None, dial_results = [Inr conn_ok], now_year = 2017, trace = []\<rparr>"


section \<open>Properties\<close>

subsection \<open>Unfolding the definitions on concrete inputs\<close>

lemmas str_defs = slice_def slice_from_def slice_to_def strings_LastIndex_def strings_Contains_def
  strings_HasPrefix_def strings_TrimPrefix_def strings_SplitN_def strings_Split_def
  isSpace_def strings_Fields_def strings_TrimSpace_def strings_TrimLeft_def
lemmas num_defs = maxUint64_def isDigitChar_def digit_val_def is_base_letter_def underscoreOK_def
  strconv_ParseUint_def strconv_Atoi_def strconv_Itoa_def
lemmas time_defs = zero_Time_def layout_chunks_def pstate0_def cutspace_def dig_def getnum_def time_atoi_def
  shortMonthNames_def fold_case_def is_letter_def match_char_def parseSignedOffset_def parseGMT_def
  isUpperChar_def parseTimeZone_def parseNanoseconds_def isLeap_def daysIn_def finish_parse_def time_Parse_def
lemmas parse_defs = Entry0_def dirTimeFormats_def setSize_def setTime_def parseRFC3659ListLine_def
  parseLsListLine_def parseDirListLine_def listLineParsers_def parseListLine_def

lemmas io_defs = cmd_def conn_Cmd_def conn_ReadResponse_def conn_Close_def parseCodeLine_def
  net_DialTimeout_def net_JoinHostPort_def dconn_Close_def log_event_def io_Copy_def
lemmas status_defs = StatusAlreadyOpen_def StatusAboutToSend_def StatusCommandOK_def
  StatusSystem_def StatusReady_def StatusClosingDataConnection_def StatusPassiveMode_def
  StatusExtendedPassiveMode_def StatusRequestFilePending_def
lemmas client_defs = epsv_def pasv_def getDataConnPort_def openDataConn_def cmdDataConnFrom_def
  response_Close_def StorFrom_def RetrFrom_def NameList_def List_cmd_def wrap64_def

subsection \<open>Traces of the primitive operations\<close>

lemma trace_log_event [simp]: "trace (log_event ev w) = trace w @ [ev]"
  by (simp add: log_event_def)

lemma trace_conn_Cmd [simp]: "trace (snd (conn_Cmd l w)) = trace w @ [CmdSent l]"
  by (simp add: conn_Cmd_def split: list.splits)

lemma trace_conn_ReadResponse [simp]:
  "trace (snd (conn_ReadResponse expected w)) = trace w @ [RespRead expected]"
  by (simp add: conn_ReadResponse_def Let_def split: list.splits sum.splits prod.splits option.splits)


lemma trace_dconn_Close [simp]: "trace (snd (dconn_Close conn w)) = trace w @ [DataClose]"
  by (simp add: dconn_Close_def)


subsection \<open>Teardown\<close>



subsection \<open>The fixed-width-date recognizer\<close>

lemma try_formats_short:
  "length line \<le> 17 \<Longrightarrow> try_formats dirTimeFormats line t err = (t, err, line)"
  by (simp add: dirTimeFormats_def)

text \<open>
  Claim C10.  The two time formats are 17 bytes long and a format is tried only on a
  longer line, so on a line of at most 17 bytes the loop tries neither and leaves no
  error: the recognizer goes on.  The line \<open>123 x\<close> is accepted, by the recognizer and by
  the chain, as a file of size 123 named \<open>x\<close> with the zero time.
\<close>

theorem parseDirListLine_no_format_tried:
  "(length line \<le> 17 \<longrightarrow>
      try_formats dirTimeFormats line zero_Time None = (zero_Time, None, line))
   \<and> list_all (\<lambda>format. length format = 17) dirTimeFormats
   \<and> parseDirListLine ''123 x'' =
       Inr \<lparr>Name = ''x'', Type = EntryTypeFile, Size = 123, Time = zero_Time\<rparr>
   \<and> parseListLine thisYear ''123 x'' =
       Inr \<lparr>Name = ''x'', Type = EntryTypeFile, Size = 123, Time = zero_Time\<rparr>"
proof -
  have a: "length line \<le> 17 \<longrightarrow>
      try_formats dirTimeFormats line zero_Time None = (zero_Time, None, line)"
    by (simp add: try_formats_short)
  have b: "list_all (\<lambda>format. length format = 17) dirTimeFormats"
    by (simp add: dirTimeFormats_def)
  have c: "parseDirListLine ''123 x'' =
       Inr \<lparr>Name = ''x'', Type = EntryTypeFile, Size = 123, Time = zero_Time\<rparr>"
    by (simp add: str_defs num_defs parse_defs)
  have d: "parseRFC3659ListLine ''123 x'' = Inl errUnsupportedListLine"
    by (simp add: str_defs parse_defs)
  have e: "parseLsListLine thisYear ''123 x'' = Inl errUnsupportedListLine"
    by (simp add: str_defs parse_defs)
  have f: "parseListLine thisYear ''123 x'' =
       Inr \<lparr>Name = ''x'', Type = EntryTypeFile, Size = 123, Time = zero_Time\<rparr>"
    by (simp add: parseListLine_def listLineParsers_def d e c)
  show ?thesis using a b c f by simp
qed

theorem parseDirListLine_no_format_tried_witness:
  "length ''123 x'' \<le> 17
   \<and> try_formats dirTimeFormats ''123 x'' zero_Time None = (zero_Time, None, ''123 x'')"
  using parseDirListLine_no_format_tried [of "''123 x''"] by simp

subsection \<open>The recognizer chain\<close>

text \<open>
  Claim C3 as stated fails.  No recognizer accepts the first line, and the ls-style
  recognizer finds its first character malformed: the chain returns that error, not
  \<open>errUnsupportedListLine\<close>.  The second line is one the fixed-width-date recognizer
  accepts, but the chain stops at the ls-style recognizer's error before trying it.
\<close>

theorem parseListLine_malformed_counterexample:
  "parseRFC3659ListLine malformed_ls_line = Inl errUnsupportedListLine
   \<and> parseLsListLine 2017 malformed_ls_line = Inl (ErrorString ''Unknown entry type'')
   \<and> parseDirListLine malformed_ls_line = Inl errUnsupportedListLine
   \<and> parseListLine 2017 malformed_ls_line = Inl (ErrorString ''Unknown entry type'')
   \<and> parseListLine 2017 malformed_ls_line \<noteq> Inl errUnsupportedListLine
   \<and> parseDirListLine dir_line_with_nine_fields =
       Inr \<lparr>Name = ''a b c d e f g'', Type = EntryTypeFile, Size = 1024,
            Time = \<lparr>Year = 2020, Month = 1, Day = 1, Hour = 10, Minute = 0, Second = 0,
                    Nanosecond = 0, Zone = ''UTC''\<rparr>\<rparr>
   \<and> parseListLine 2017 dir_line_with_nine_fields = Inl (ErrorString ''Unknown entry type'')"
proof -
  have a: "parseRFC3659ListLine malformed_ls_line = Inl errUnsupportedListLine"
    by (simp add: malformed_ls_line_def str_defs parse_defs)
  have b: "parseLsListLine 2017 malformed_ls_line = Inl (ErrorString ''Unknown entry type'')"
    by (simp add: malformed_ls_line_def str_defs parse_defs)
  have c: "parseDirListLine malformed_ls_line = Inl errUnsupportedListLine"
    by (simp add: malformed_ls_line_def str_defs num_defs parse_defs)
  have d: "parseRFC3659ListLine dir_line_with_nine_fields = Inl errUnsupportedListLine"
    by (simp add: dir_line_with_nine_fields_def str_defs parse_defs)
  have e: "parseLsListLine 2017 dir_line_with_nine_fields = Inl (ErrorString ''Unknown entry type'')"
    by (simp add: dir_line_with_nine_fields_def str_defs parse_defs)
  have f: "parseDirListLine dir_line_with_nine_fields =
       Inr \<lparr>Name = ''a b c d e f g'', Type = EntryTypeFile, Size = 1024,
            Time = \<lparr>Year = 2020, Month = 1, Day = 1, Hour = 10, Minute = 0, Second = 0,
                    Nanosecond = 0, Zone = ''UTC''\<rparr>\<rparr>"
    by (simp add: dir_line_with_nine_fields_def str_defs num_defs time_defs parse_defs)
  show ?thesis
    by (simp add: parseListLine_def listLineParsers_def a b c d e f)
qed

lemma List_loop_append:
  "List_loop p (xs @ ys) = List_loop p xs @ List_loop p ys"
  by (induction xs) (auto split: sum.splits)

text \<open>
  Claim C3, as the code has it.  \<open>parseListLine\<close> returns an error exactly when the
  first recognizer whose error is not \<open>errUnsupportedListLine\<close> returns it (the chain
  stops there), or when the first two report \<open>errUnsupportedListLine\<close> and the last one
  returns it.  Whatever the error, the listing loop leaves the line out.
\<close>

theorem parseListLine_first_decisive:
  "(parseListLine y l = Inl err \<longleftrightarrow>
      (parseRFC3659ListLine l = Inl err \<and> err \<noteq> errUnsupportedListLine) \<or>
      (parseRFC3659ListLine l = Inl errUnsupportedListLine \<and>
       parseLsListLine y l = Inl err \<and> err \<noteq> errUnsupportedListLine) \<or>
      (parseRFC3659ListLine l = Inl errUnsupportedListLine \<and>
       parseLsListLine y l = Inl errUnsupportedListLine \<and>
       parseDirListLine l = Inl err))
   \<and> (parseListLine y l = Inl err \<longrightarrow>
        List_loop (parseListLine y) (before @ l # after) =
        List_loop (parseListLine y) (before @ after))"
proof -
  have chain: "parseListLine y l =
     (case parseRFC3659ListLine l of
        Inr e \<Rightarrow> Inr e
      | Inl e1 \<Rightarrow>
          if e1 \<noteq> errUnsupportedListLine then Inl e1
          else (case parseLsListLine y l of
                  Inr e \<Rightarrow> Inr e
                | Inl e2 \<Rightarrow>
                    if e2 \<noteq> errUnsupportedListLine then Inl e2
                    else (case parseDirListLine l of
                            Inr e \<Rightarrow> Inr e
                          | Inl e3 \<Rightarrow> Inl e3)))"
    by (simp add: parseListLine_def listLineParsers_def split: sum.splits)
  have first: "parseListLine y l = Inl err \<longleftrightarrow>
      (parseRFC3659ListLine l = Inl err \<and> err \<noteq> errUnsupportedListLine) \<or>
      (parseRFC3659ListLine l = Inl errUnsupportedListLine \<and>
       parseLsListLine y l = Inl err \<and> err \<noteq> errUnsupportedListLine) \<or>
      (parseRFC3659ListLine l = Inl errUnsupportedListLine \<and>
       parseLsListLine y l = Inl errUnsupportedListLine \<and>
       parseDirListLine l = Inl err)"
    unfolding chain by (auto split: sum.splits)
  have dropped: "parseListLine y l = Inl err \<longrightarrow>
        List_loop (parseListLine y) (before @ l # after) =
        List_loop (parseListLine y) (before @ after)"
    by (simp add: List_loop_append)
  show ?thesis using first dropped by blast
qed

theorem parseListLine_first_decisive_witness:
  "parseListLine 2017 malformed_ls_line = Inl (ErrorString ''Unknown entry type'')
   \<and> List_loop (parseListLine 2017) ([''123 x''] @ malformed_ls_line # []) =
      List_loop (parseListLine 2017) ([''123 x''] @ [])"
proof -
  have b: "parseLsListLine 2017 malformed_ls_line = Inl (ErrorString ''Unknown entry type'')"
    by (simp add: malformed_ls_line_def str_defs parse_defs)
  have a: "parseRFC3659ListLine malformed_ls_line = Inl errUnsupportedListLine"
    by (simp add: malformed_ls_line_def str_defs parse_defs)
  have p: "parseListLine 2017 malformed_ls_line = Inl (ErrorString ''Unknown entry type'')"
    using parseListLine_first_decisive [of 2017 malformed_ls_line "ErrorString ''Unknown entry type''"] a b
    by simp
  show ?thesis
    using p parseListLine_first_decisive [of 2017 malformed_ls_line "ErrorString ''Unknown entry type''"
        "[''123 x'']" "[]"]
    by blast
qed

subsection \<open>The structured-facts recognizer\<close>

lemma strings_Index_char_absent:
  "c \<notin> set xs \<Longrightarrow> strings_Index xs [c] = - 1"
  by (induction xs) (auto simp: Let_def)

lemma strings_Index_char_first:
  "c \<notin> set xs \<Longrightarrow> strings_Index (xs @ c # ys) [c] = int (length xs)"
  by (induction xs) (auto simp: Let_def)

lemma strings_Join_Cons:
  "ps \<noteq> [] \<Longrightarrow> strings_Join (p # ps) sep = p @ sep @ strings_Join ps sep"
  by (cases ps) simp_all

lemma genSplit_Join:
  "ps \<noteq> [] \<Longrightarrow> list_all (\<lambda>p. c \<notin> set p) ps \<Longrightarrow> length ps \<le> Suc k \<Longrightarrow>
   genSplit (strings_Join ps [c]) [c] k = ps"
proof (induction ps arbitrary: k)
  case Nil
  then show ?case by simp
next
  case (Cons p ps)
  show ?case
  proof (cases "ps = []")
    case True
    with Cons.prems show ?thesis
      by (cases k) (simp_all add: strings_Index_char_absent)
  next
    case False
    from Cons.prems False obtain k' where k: "k = Suc k'" "length ps \<le> Suc k'"
      by (cases k) auto
    have p: "c \<notin> set p" and rest: "list_all (\<lambda>p. c \<notin> set p) ps"
      using Cons.prems by simp_all
    have ix: "strings_Index (p @ c # strings_Join ps [c]) [c] = int (length p)"
      using p by (rule strings_Index_char_first)
    have "genSplit (strings_Join ps [c]) [c] k' = ps"
      using Cons.IH [OF False rest k(2)] .
    then show ?thesis
      using False k ix by (simp add: strings_Join_Cons)
  qed
qed

lemma length_strings_Join:
  "ps \<noteq> [] \<Longrightarrow> length ps \<le> Suc (length (strings_Join ps [c]))"
proof (induction ps)
  case Nil
  then show ?case by simp
next
  case (Cons p ps)
  then show ?case by (cases "ps = []") (simp_all add: strings_Join_Cons)
qed

lemma strings_Split_Join:
  "ps \<noteq> [] \<Longrightarrow> list_all (\<lambda>p. c \<notin> set p) ps \<Longrightarrow>
   strings_Split (strings_Join ps [c]) [c] = ps"
  by (simp add: strings_Split_def strings_SplitN_def genSplit_Join length_strings_Join)

lemma facts_block_Join:
  "fs \<noteq> [] \<Longrightarrow>
   concat (map (\<lambda>f. fact_text f @ '';'') fs) = strings_Join (map fact_text fs) '';'' @ '';''"
proof (induction fs)
  case Nil
  then show ?case by simp
next
  case (Cons f fs)
  then show ?case by (cases "fs = []") (simp_all add: strings_Join_Cons)
qed

lemma clean_fact_text:
  "clean_fact f \<Longrightarrow> CHR '';'' \<notin> set (fact_text f) \<and> CHR '' '' \<notin> set (fact_text f)"
  by (auto simp: clean_fact_def fact_text_def list_all_iff)

lemma clean_Join_no_space:
  "list_all clean_fact fs \<Longrightarrow> CHR '' '' \<notin> set (strings_Join (map fact_text fs) '';'')"
proof (induction fs)
  case Nil
  then show ?case by simp
next
  case (Cons f fs)
  then show ?case
    using clean_fact_text [of f] by (cases "fs = []") (simp_all add: strings_Join_Cons)
qed


lemma parseRFC3659ListLine_facts_line:
  assumes ne: "fs \<noteq> []" and cl: "list_all clean_fact fs"
  shows "parseRFC3659ListLine (facts_line fs name) =
         parseRFC3659_fields (map fact_text fs) (Entry0\<lparr>Name := name\<rparr>)"
proof -
  define J where "J = strings_Join (map fact_text fs) '';''"
  have line: "facts_line fs name = J @ CHR '';'' # CHR '' '' # name"
    using ne by (simp add: facts_line_def facts_block_Join J_def)
  obtain f fs' where fs: "fs = f # fs'" using ne by (cases fs) auto
  have nosemi: "list_all (\<lambda>p. CHR '';'' \<notin> set p) (map fact_text fs)"
    using cl clean_fact_text by (auto simp: list_all_iff)
  have nospace: "CHR '' '' \<notin> set J"
    unfolding J_def using cl by (rule clean_Join_no_space)
  have first: "\<exists>r. facts_line fs name = fact_text f @ CHR '';'' # r"
    by (simp add: facts_line_def fs)
  have fsemi: "CHR '';'' \<notin> set (fact_text f)"
    using cl fs clean_fact_text [of f] by simp
  have lenf: "length (fact_text f) \<le> length J"
  proof (cases "fs' = []")
    case True
    then show ?thesis by (simp add: J_def fs)
  next
    case False
    then show ?thesis by (simp add: J_def fs strings_Join_Cons)
  qed
  from first obtain r where r: "facts_line fs name = fact_text f @ CHR '';'' # r" ..
  have iS: "strings_Index (facts_line fs name) '';'' = int (length (fact_text f))"
    unfolding r using fsemi by (rule strings_Index_char_first)
  have "CHR '' '' \<notin> set (J @ '';'')" using nospace by simp
  then have "strings_Index ((J @ '';'') @ CHR '' '' # name) '' '' = int (length (J @ '';''))"
    by (rule strings_Index_char_first)
  then have iW: "strings_Index (facts_line fs name) '' '' = int (length J) + 1"
    by (simp add: line)
  have n2: "nat (int (length J) + 1 + 1) = length J + 2" by simp
  have sf: "slice_from (facts_line fs name) (int (length J) + 1 + 1) = Inr name"
    unfolding slice_from_def slice_def n2 by (simp add: line)
  have st: "slice_to (facts_line fs name) (int (length J) + 1 - 1) = Inr J"
    by (simp add: slice_to_def slice_def line)
  have sp: "strings_Split J '';'' = map fact_text fs"
    unfolding J_def using ne nosemi by (simp add: strings_Split_Join)
  show ?thesis
    unfolding parseRFC3659ListLine_def Let_def iS iW sf st
    using lenf by (simp add: sp)
qed

lemma clean_fact_split:
  assumes "clean_fact f"
  shows "strings_Index (fact_text f) ''='' = int (length (fst f))"
    and "slice_to (fact_text f) (int (length (fst f))) = Inr (fst f)"
    and "slice_from (fact_text f) (int (length (fst f)) + 1) = Inr (snd f)"
    and "fst f \<noteq> []"
proof -
  have "CHR ''='' \<notin> set (fst f)"
    using assms by (auto simp: clean_fact_def list_all_iff)
  then show "strings_Index (fact_text f) ''='' = int (length (fst f))"
    unfolding fact_text_def by (simp add: strings_Index_char_first)
  show "slice_to (fact_text f) (int (length (fst f))) = Inr (fst f)"
    by (simp add: slice_to_def slice_def fact_text_def)
  have n1: "nat (int (length (fst f)) + 1) = length (fst f) + 1" by simp
  show "slice_from (fact_text f) (int (length (fst f)) + 1) = Inr (snd f)"
    unfolding slice_from_def slice_def n1 by (simp add: fact_text_def)
  show "fst f \<noteq> []"
    using assms by (simp add: clean_fact_def)
qed

lemma fields_unrecognized:
  "unrecognized f \<Longrightarrow>
   parseRFC3659_fields (fact_text f # rest) e = parseRFC3659_fields rest e"
  by (simp add: unrecognized_def clean_fact_split Let_def)

lemma fields_type_file:
  "parseRFC3659_fields (fact_text (''type'', ''file'') # rest) e =
   parseRFC3659_fields rest (e\<lparr>Type := EntryTypeFile\<rparr>)"
  by (simp add: fact_text_def slice_to_def slice_from_def slice_def Let_def)

lemma fields_size_12345:
  "parseRFC3659_fields (fact_text (''size'', ''12345'') # rest) e =
   parseRFC3659_fields rest (e\<lparr>Size := 12345\<rparr>)"
  by (simp add: fact_text_def slice_to_def slice_from_def slice_def Let_def setSize_def num_defs)

lemma time_Parse_report:
  "time_Parse ''20060102150405'' ''20200101120000'' = Inr report_time"
  by (simp add: time_defs num_defs report_time_def)

lemma fields_modify_report:
  "parseRFC3659_fields (fact_text (''modify'', ''20200101120000'') # rest) e =
   parseRFC3659_fields rest (e\<lparr>Time := report_time\<rparr>)"
  by (simp add: fact_text_def slice_to_def slice_from_def slice_def Let_def time_Parse_report)

lemma fields_report_facts:
  "list_all (\<lambda>f. unrecognized f \<or> f \<in> set report_facts) fs \<Longrightarrow>
   parseRFC3659_fields (map fact_text fs) e =
     Inr (e\<lparr>Type := (if (''type'', ''file'') \<in> set fs then EntryTypeFile else Type e),
            Size := (if (''size'', ''12345'') \<in> set fs then 12345 else Size e),
            Time := (if (''modify'', ''20200101120000'') \<in> set fs then report_time else Time e)\<rparr>)"
proof (induction fs arbitrary: e)
  case Nil
  then show ?case by simp
next
  case (Cons f fs)
  then have rest: "list_all (\<lambda>f. unrecognized f \<or> f \<in> set report_facts) fs"
    and f: "unrecognized f \<or> f \<in> set report_facts" by simp_all
  note IH = Cons.IH [OF rest]
  from f consider (u) "unrecognized f" | (t) "f = (''type'', ''file'')"
    | (s) "f = (''size'', ''12345'')" | (m) "f = (''modify'', ''20200101120000'')"
    by (auto simp: report_facts_def)
  then show ?case
  proof cases
    case u
    then have "f \<noteq> (''type'', ''file'')" "f \<noteq> (''size'', ''12345'')"
      "f \<noteq> (''modify'', ''20200101120000'')"
      by (auto simp: unrecognized_def)
    then show ?thesis using u by (simp add: fields_unrecognized IH del: parseRFC3659_fields.simps)
  next
    case t
    then show ?thesis by (simp add: fields_type_file IH del: parseRFC3659_fields.simps)
  next
    case s
    then show ?thesis by (simp add: fields_size_12345 IH del: parseRFC3659_fields.simps)
  next
    case m
    then show ?thesis by (simp add: fields_modify_report IH del: parseRFC3659_fields.simps)
  qed
qed

lemma report_facts_clean: "list_all clean_fact report_facts"
  by (simp add: report_facts_def clean_fact_def)

text \<open>
  Claim C8.  The line \<open>type=file;size=12345;modify=20200101120000; report.txt\<close> parses
  to the file \<open>report.txt\<close> of size 12345 and time 2020-01-01 12:00:00 UTC; and so does
  every line of facts which, unrecognized facts left out, are the three facts in any
  order.
\<close>

theorem parseRFC3659ListLine_report:
  "parseRFC3659ListLine ''type=file;size=12345;modify=20200101120000; report.txt'' = Inr report_entry
   \<and> (mset (filter (\<lambda>f. \<not> unrecognized f) fs) = mset report_facts \<longrightarrow>
        parseRFC3659ListLine (facts_line fs ''report.txt'') = Inr report_entry)"
proof -
  have general: "parseRFC3659ListLine (facts_line fs ''report.txt'') = Inr report_entry"
    if perm: "mset (filter (\<lambda>f. \<not> unrecognized f) fs) = mset report_facts" for fs
  proof -
    have sets: "set (filter (\<lambda>f. \<not> unrecognized f) fs) = set report_facts"
      using perm by (metis set_mset_mset)
    then have known: "{f \<in> set fs. \<not> unrecognized f} = set report_facts" by simp
    have each: "list_all (\<lambda>f. unrecognized f \<or> f \<in> set report_facts) fs"
      using known by (auto simp: list_all_iff)
    have present: "(''type'', ''file'') \<in> set fs" "(''size'', ''12345'') \<in> set fs"
      "(''modify'', ''20200101120000'') \<in> set fs"
      using known by (auto simp: report_facts_def)
    then have ne: "fs \<noteq> []" by auto
    have cl: "list_all clean_fact fs"
      using each report_facts_clean by (auto simp: list_all_iff unrecognized_def)
    show ?thesis
      by (simp add: parseRFC3659ListLine_facts_line [OF ne cl] fields_report_facts [OF each]
          present Entry0_def report_entry_def)
  qed
  have line: "facts_line report_facts ''report.txt'' =
      ''type=file;size=12345;modify=20200101120000; report.txt''"
    by (simp add: facts_line_def report_facts_def fact_text_def)
  have "mset (filter (\<lambda>f. \<not> unrecognized f) report_facts) = mset report_facts"
    by (simp add: report_facts_def unrecognized_def)
  from general [OF this] have concrete:
    "parseRFC3659ListLine ''type=file;size=12345;modify=20200101120000; report.txt'' = Inr report_entry"
    by (simp add: line)
  show ?thesis using concrete general by blast
qed

theorem parseRFC3659ListLine_report_witness:
  "mset (filter (\<lambda>f. \<not> unrecognized f)
     [(''size'', ''12345''), (''perm'', ''r''), (''modify'', ''20200101120000''),
      (''type'', ''file''), (''unique'', ''801U1A'')]) = mset report_facts
   \<and> parseRFC3659ListLine
       ''size=12345;perm=r;modify=20200101120000;type=file;unique=801U1A; report.txt'' =
      Inr report_entry"
proof -
  let ?fs = "[(''size'', ''12345''), (''perm'', ''r''), (''modify'', ''20200101120000''),
      (''type'', ''file''), (''unique'', ''801U1A'')]"
  have p: "mset (filter (\<lambda>f. \<not> unrecognized f) ?fs) = mset report_facts"
    by (simp add: report_facts_def unrecognized_def clean_fact_def)
  have l: "facts_line ?fs ''report.txt'' =
      ''size=12345;perm=r;modify=20200101120000;type=file;unique=801U1A; report.txt''"
    by (simp add: facts_line_def fact_text_def)
  show ?thesis
    using parseRFC3659ListLine_report [of ?fs] p l by simp
qed

subsection \<open>Feature negotiation\<close>

lemma ctrl_in_conn_Cmd [simp]: "ctrl_in (snd (conn_Cmd l w)) = ctrl_in w"
  by (simp add: conn_Cmd_def log_event_def split: list.splits)

lemma ctrl_in_log_event [simp]: "ctrl_in (log_event ev w) = ctrl_in w"
  by (simp add: log_event_def)

lemma parseCodeLine_211_first:
  "parseCodeLine ''211-Features:'' (- 1) = (211, True, ''Features:'', None)"
  by (simp add: parseCodeLine_def num_defs)

lemma read_continuation_feat:
  "read_continuation 211 ''Features:'' (Inr '' MLST'' # Inr '' SIZE'' # Inr ''211 End'' # rest) =
     (Inr (''Features:\<newline> MLST\<newline> SIZE\<newline>End''), rest)"
  by (simp add: parseCodeLine_def num_defs trimRightCRLF_def)

lemma conn_ReadResponse_feat:
  assumes "ctrl_in w = map Inr feat_reply_lines @ rest"
  shows "conn_ReadResponse (- 1) w =
     (Inr (211, ''Features:\<newline> MLST\<newline> SIZE\<newline>End''),
      (log_event (RespRead (- 1)) w)\<lparr>ctrl_in := rest\<rparr>)"
proof -
  have c: "ctrl_in (log_event (RespRead (- 1)) w) =
      Inr ''211-Features:'' # Inr '' MLST'' # Inr '' SIZE'' # Inr ''211 End'' # rest"
    using assms by (simp add: feat_reply_lines_def)
  show ?thesis
    unfolding conn_ReadResponse_def Let_def c
    by (simp add: parseCodeLine_211_first read_continuation_feat del: read_continuation.simps)
qed

lemma feat_lines_reply:
  "feat_lines (strings_Split (''Features:\<newline> MLST\<newline> SIZE\<newline>End'') [CHR 0x0A]) m
   = m(''MLST'' \<mapsto> [], ''SIZE'' \<mapsto> [])"
  by (simp add: str_defs)


text \<open>
  Claim C9.  When the reply to FEAT is the four lines \<open>211-Features:\<close>, \<open> MLST\<close>,
  \<open> SIZE\<close>, \<open>211 End\<close>, the feature table of a new client (empty, as \<open>DialTimeout\<close>
  makes it) holds exactly MLST and SIZE, each with the empty parameter; when the reply
  has any other code, \<open>feat\<close> returns no error and the table stays empty.
\<close>

theorem feat_feature_table:
  "(fst (conn_Cmd ''FEAT'' w) = None \<and> ctrl_in w = map Inr feat_reply_lines @ rest \<and>
    features c = Map.empty \<longrightarrow>
      fst (feat c w) = None \<and>
      features (fst (snd (feat c w))) = [''MLST'' \<mapsto> [], ''SIZE'' \<mapsto> []] \<and>
      dom (features (fst (snd (feat c w)))) = {''MLST'', ''SIZE''})
   \<and> (cmd (- 1) ''FEAT'' w = (Inr (code, msg), w') \<and> code \<noteq> StatusSystem \<and>
       features c = Map.empty \<longrightarrow>
      feat c w = (None, c, w') \<and> features (fst (snd (feat c w))) = Map.empty)"
proof -
  have listed: "fst (feat c w) = None \<and>
      features (fst (snd (feat c w))) = [''MLST'' \<mapsto> [], ''SIZE'' \<mapsto> []] \<and>
      dom (features (fst (snd (feat c w)))) = {''MLST'', ''SIZE''}"
    if ok: "fst (conn_Cmd ''FEAT'' w) = None"
      and lines: "ctrl_in w = map Inr feat_reply_lines @ rest"
      and fresh: "features c = Map.empty"
  proof -
    obtain w1 where w1: "conn_Cmd ''FEAT'' w = (None, w1)"
      using ok by (cases "conn_Cmd ''FEAT'' w") simp
    have "ctrl_in w1 = map Inr feat_reply_lines @ rest"
      using ctrl_in_conn_Cmd [of "''FEAT''" w] w1 lines by simp
    from conn_ReadResponse_feat [OF this]
    have "cmd (- 1) ''FEAT'' w =
        (Inr (211, ''Features:\<newline> MLST\<newline> SIZE\<newline>End''),
         (log_event (RespRead (- 1)) w1)\<lparr>ctrl_in := rest\<rparr>)"
      by (simp add: cmd_def w1)
    then have f: "feat c w =
        (None, c\<lparr>features := [''MLST'' \<mapsto> [], ''SIZE'' \<mapsto> []]\<rparr>,
         (log_event (RespRead (- 1)) w1)\<lparr>ctrl_in := rest\<rparr>)"
      unfolding feat_def by (simp add: StatusSystem_def feat_lines_reply fresh)
    show ?thesis unfolding f by auto
  qed
  have other: "feat c w = (None, c, w') \<and> features (fst (snd (feat c w))) = Map.empty"
    if "cmd (- 1) ''FEAT'' w = (Inr (code, msg), w')" and "code \<noteq> StatusSystem"
      and "features c = Map.empty"
    using that by (simp add: feat_def)
  show ?thesis using listed other by blast
qed

theorem feat_feature_table_witness:
  "fst (conn_Cmd ''FEAT'' w_feat) = None \<and> ctrl_in w_feat = map Inr feat_reply_lines @ [] \<and>
   features c_fresh = Map.empty \<and>
   fst (feat c_fresh w_feat) = None \<and>
   dom (features (fst (snd (feat c_fresh w_feat)))) = {''MLST'', ''SIZE''} \<and>
   features (fst (snd (feat c_fresh w_feat))) ''MLST'' = Some [] \<and>
   features (fst (snd (feat c_fresh w_feat))) ''SIZE'' = Some [] \<and>
   fst (cmd (- 1) ''FEAT'' w_no_feat) = Inr (502, ''Command not implemented'') \<and>
   fst (feat c_fresh w_no_feat) = None \<and>
   features (fst (snd (feat c_fresh w_no_feat))) = Map.empty"
proof -
  have a: "fst (conn_Cmd ''FEAT'' w_feat) = None"
    by (simp add: conn_Cmd_def w_feat_def)
  have b: "ctrl_in w_feat = map Inr feat_reply_lines @ []"
    by (simp add: w_feat_def)
  have c: "features c_fresh = Map.empty"
    by (simp add: c_fresh_def)
  obtain w' where d: "cmd (- 1) ''FEAT'' w_no_feat = (Inr (502, ''Command not implemented''), w')"
    by (simp add: cmd_def conn_Cmd_def conn_ReadResponse_def parseCodeLine_def num_defs
        log_event_def w_no_feat_def)
  have e: "(502::int) \<noteq> StatusSystem" by (simp add: StatusSystem_def)
  from feat_feature_table [of w_feat "[]" c_fresh 0 "[]" w_feat] a b c
  have one: "fst (feat c_fresh w_feat) = None \<and>
      features (fst (snd (feat c_fresh w_feat))) = [''MLST'' \<mapsto> [], ''SIZE'' \<mapsto> []] \<and>
      dom (features (fst (snd (feat c_fresh w_feat)))) = {''MLST'', ''SIZE''}"
    by blast
  from feat_feature_table [of w_no_feat "[]" c_fresh 502 "''Command not implemented''" w'] c d e
  have two: "feat c_fresh w_no_feat = (None, c_fresh, w') \<and>
      features (fst (snd (feat c_fresh w_no_feat))) = Map.empty"
    by blast
  show ?thesis using a b c d one two by (simp add: insert_commute)
qed

subsection \<open>Legacy passive mode\<close>

lemma strings_LastIndex_char_last:
  assumes "c \<notin> set ys"
  shows "strings_LastIndex (xs @ c # ys) [c] = int (length xs)"
proof -
  have "strings_Index (rev ys @ c # rev xs) [c] = int (length (rev ys))"
    using assms by (intro strings_Index_char_first) simp
  then show ?thesis
    by (simp add: strings_LastIndex_def)
qed

lemma conn_ReadResponse_single:
  assumes "ctrl_in w = Inr line # rest"
    and "parseCodeLine line expected = (code, False, msg, None)"
  shows "conn_ReadResponse expected w =
         (Inr (code, msg), (log_event (RespRead expected) w)\<lparr>ctrl_in := rest\<rparr>)"
  using assms by (simp add: conn_ReadResponse_def Let_def)

lemma parseCodeLine_227:
  "parseCodeLine (''227 '' @ msg) StatusPassiveMode = (227, False, msg, None)"
  by (simp add: parseCodeLine_def StatusPassiveMode_def num_defs)

lemma pasv_body:
  assumes pre: "CHR ''('' \<notin> set pre" and post: "CHR '')'' \<notin> set post"
  defines "msg \<equiv> pre @ ''(192,168,1,1,200,13)'' @ post"
  shows "strings_Index msg ''('' = int (length pre)"
    and "strings_LastIndex msg '')'' = int (length pre) + 19"
    and "slice msg (int (length pre) + 1) (int (length pre) + 19) = Inr ''192,168,1,1,200,13''"
proof -
  show "strings_Index msg ''('' = int (length pre)"
    unfolding msg_def using pre by (simp add: strings_Index_char_first)
  have "strings_LastIndex ((pre @ ''(192,168,1,1,200,13'') @ CHR '')'' # post) '')'' =
        int (length (pre @ ''(192,168,1,1,200,13''))"
    using post by (rule strings_LastIndex_char_last)
  then show "strings_LastIndex msg '')'' = int (length pre) + 19"
    by (simp add: msg_def)
  have n: "nat (int (length pre) + 1) = length pre + 1" by simp
  show "slice msg (int (length pre) + 1) (int (length pre) + 19) = Inr ''192,168,1,1,200,13''"
    unfolding slice_def n by (simp add: msg_def)
qed

lemma pasv_data_port:
  "strings_Split ''192,168,1,1,200,13'' '','' = [''192'', ''168'', ''1'', ''1'', ''200'', ''13'']"
  "strconv_Atoi ''200'' = Inr 200"
  "strconv_Atoi ''13'' = Inr 13"
  by (simp_all add: str_defs num_defs)

lemma wrap64_port: "wrap64 (wrap64 51200 + 13) = 51213"
  unfolding wrap64_def by simp

lemma pasv_reply:
  assumes ok: "fst (conn_Cmd ''PASV'' w) = None"
    and line: "ctrl_in w = Inr (''227 '' @ pre @ ''(192,168,1,1,200,13)'' @ post) # rest"
    and pre: "CHR ''('' \<notin> set pre" and post: "CHR '')'' \<notin> set post"
  shows "fst (pasv w) = Inr 51213"
    and "trace (snd (pasv w)) = trace w @ [CmdSent ''PASV'', RespRead StatusPassiveMode]"
proof -
  obtain w1 where w1: "conn_Cmd ''PASV'' w = (None, w1)"
    using ok by (cases "conn_Cmd ''PASV'' w") simp
  let ?msg = "pre @ ''(192,168,1,1,200,13)'' @ post"
  let ?w2 = "(log_event (RespRead StatusPassiveMode) w1)\<lparr>ctrl_in := rest\<rparr>"
  have t1: "trace w1 = trace w @ [CmdSent ''PASV'']"
    using trace_conn_Cmd [of "''PASV''" w] w1 by simp
  have "ctrl_in w1 = Inr (''227 '' @ ?msg) # rest"
    using ctrl_in_conn_Cmd [of "''PASV''" w] w1 line by simp
  then have rd: "conn_ReadResponse StatusPassiveMode w1 = (Inr (227, ?msg), ?w2)"
    by (rule conn_ReadResponse_single) (rule parseCodeLine_227)
  have c: "cmd StatusPassiveMode ''PASV'' w = (Inr (227, ?msg), ?w2)"
    by (simp add: cmd_def w1 rd)
  note b = pasv_body [OF pre post]
  have ne: "int (length pre) \<noteq> - 1" "int (length pre) + 19 \<noteq> - 1" by simp_all
  have p: "pasv w = (Inr 51213, ?w2)"
    unfolding pasv_def c prod.case sum.case Let_def b
    using ne by (simp add: pasv_data_port wrap64_port)
  show "fst (pasv w) = Inr 51213" by (simp add: p)
  show "trace (snd (pasv w)) = trace w @ [CmdSent ''PASV'', RespRead StatusPassiveMode]"
    by (simp add: p t1)
qed

text \<open>
  Claim C5.  When the reply to PASV is \<open>227\<close> with a body in which
  \<open>(192,168,1,1,200,13)\<close> is the parenthesised group (no \<open>(\<close> before it, no \<open>)\<close> after
  it), the port is \<open>200 * 256 + 13 = 51213\<close>; and a client in legacy mode then dials the
  address made of its own resolved host and that port: the four octets of the reply
  are not used.
\<close>

theorem pasv_port_and_dial_host:
  assumes ok: "fst (conn_Cmd ''PASV'' w) = None"
    and line: "ctrl_in w = Inr (''227 '' @ pre @ ''(192,168,1,1,200,13)'' @ post) # rest"
    and pre: "CHR ''('' \<notin> set pre" and post: "CHR '')'' \<notin> set post"
  shows "fst (pasv w) = Inr (200 * 256 + 13) \<and>
         (unepsv c \<longrightarrow>
            fst (getDataConnPort c w) = Inr 51213 \<and>
            fst (snd (openDataConn c w)) = c \<and>
            trace (snd (snd (openDataConn c w))) =
              trace w @ [CmdSent ''PASV'', RespRead StatusPassiveMode,
                         DataDial (net_JoinHostPort (host c) ''51213'') (timeout c)])"
proof -
  note p = pasv_reply [OF ok line pre post]
  have itoa: "strconv_Itoa 51213 = ''51213''"
    by (simp add: strconv_Itoa_def)
  have dial: "trace (snd (net_DialTimeout a t w')) = trace w' @ [DataDial a t]" for a t w'
    by (simp add: net_DialTimeout_def split: list.splits)
  have "unepsv c \<longrightarrow>
            fst (getDataConnPort c w) = Inr 51213 \<and>
            fst (snd (openDataConn c w)) = c \<and>
            trace (snd (snd (openDataConn c w))) =
              trace w @ [CmdSent ''PASV'', RespRead StatusPassiveMode,
                         DataDial (net_JoinHostPort (host c) ''51213'') (timeout c)]"
  proof
    assume u: "unepsv c"
    have g: "getDataConnPort c w = (Inr 51213, c, snd (pasv w))"
      using u p(1) by (cases "pasv w") (simp add: getDataConnPort_def)
    obtain r w'' where d: "net_DialTimeout (net_JoinHostPort (host c) ''51213'') (timeout c) (snd (pasv w)) = (r, w'')"
      by (cases "net_DialTimeout (net_JoinHostPort (host c) ''51213'') (timeout c) (snd (pasv w))")
    have o: "openDataConn c w = (r, c, w'')"
      by (simp add: openDataConn_def g itoa d)
    have "trace w'' = trace (snd (pasv w)) @ [DataDial (net_JoinHostPort (host c) ''51213'') (timeout c)]"
      using dial [of "net_JoinHostPort (host c) ''51213''" "timeout c" "snd (pasv w)"] d by simp
    then show "fst (getDataConnPort c w) = Inr 51213 \<and>
            fst (snd (openDataConn c w)) = c \<and>
            trace (snd (snd (openDataConn c w))) =
              trace w @ [CmdSent ''PASV'', RespRead StatusPassiveMode,
                         DataDial (net_JoinHostPort (host c) ''51213'') (timeout c)]"
      by (simp add: g o p)
  qed
  then show ?thesis by (simp add: p)
qed

theorem pasv_port_and_dial_host_witness:
  "fst (conn_Cmd ''PASV'' w_pasv) = None \<and>
   ctrl_in w_pasv = Inr (''227 '' @ ''Entering Passive Mode '' @ ''(192,168,1,1,200,13)'' @ ''.'') # [] \<and>
   CHR ''('' \<notin> set ''Entering Passive Mode '' \<and> CHR '')'' \<notin> set ''.'' \<and> unepsv c_legacy \<and>
   fst (pasv w_pasv) = Inr 51213 \<and>
   trace (snd (snd (openDataConn c_legacy w_pasv))) =
     [CmdSent ''PASV'', RespRead 227, DataDial ''10.0.0.5:51213'' 0]"
proof -
  have a: "fst (conn_Cmd ''PASV'' w_pasv) = None"
    by (simp add: conn_Cmd_def w_pasv_def)
  have b: "ctrl_in w_pasv = Inr (''227 '' @ ''Entering Passive Mode '' @ ''(192,168,1,1,200,13)'' @ ''.'') # []"
    by (simp add: w_pasv_def)
  have c: "CHR ''('' \<notin> set ''Entering Passive Mode ''" by simp
  have d: "CHR '')'' \<notin> set ''.''" by simp
  have e: "unepsv c_legacy" by (simp add: c_legacy_def)
  have f: "net_JoinHostPort (host c_legacy) ''51213'' = ''10.0.0.5:51213''"
    by (simp add: net_JoinHostPort_def c_legacy_def)
  have g: "timeout c_legacy = 0" "trace w_pasv = []"
    by (simp_all add: c_legacy_def w_pasv_def)
  show ?thesis
    using pasv_port_and_dial_host [OF a b c d, of c_legacy] a b e f g
    by (simp add: StatusPassiveMode_def)
qed



subsection \<open>Closing a download\<close>

text \<open>
  Claim C7.  \<open>response.Close\<close> closes the data connection and then reads exactly one
  reply, requiring 226, whatever the state of the connection or of the caller's reading.
  The listing operations, once their command is accepted, end with that very close,
  whether the scanner ended with an error or not.
\<close>

theorem response_Close_always_reads_status:
  "trace (snd (response_Close conn w)) =
     trace w @ [DataClose, RespRead StatusClosingDataConnection]
   \<and> (cmdDataConnFrom 0 (''NLST '' @ path) c w = (Inr conn, cn, wn) \<longrightarrow>
        trace (snd (snd (NameList path c w))) =
          trace wn @ [DataScan, DataClose, RespRead StatusClosingDataConnection])
   \<and> (cmdDataConnFrom 0 ((if mlst c then ''MLSD'' else ''LIST'') @ '' '' @ path) c w =
          (Inr conn, cn, wn) \<longrightarrow>
        trace (snd (snd (List_cmd path c w))) =
          trace wn @ [DataScan, DataClose, RespRead StatusClosingDataConnection])"
proof -
  have close: "trace (snd (response_Close rc rw)) =
     trace rw @ [DataClose, RespRead StatusClosingDataConnection]" for rc rw
  proof -
    obtain err wa where a: "dconn_Close rc rw = (err, wa)" by (cases "dconn_Close rc rw")
    obtain r wb where b: "conn_ReadResponse StatusClosingDataConnection wa = (r, wb)"
      by (cases "conn_ReadResponse StatusClosingDataConnection wa")
    have ta: "trace wa = trace rw @ [DataClose]"
      using trace_dconn_Close [of rc rw] a by simp
    have tb: "trace wb = trace wa @ [RespRead StatusClosingDataConnection]"
      using trace_conn_ReadResponse [of StatusClosingDataConnection wa] b by simp
    show ?thesis
      by (cases r) (simp_all add: response_Close_def a b ta tb)
  qed
  have names: "trace (snd (snd (NameList path c w))) =
          trace wn @ [DataScan, DataClose, RespRead StatusClosingDataConnection]"
    if "cmdDataConnFrom 0 (''NLST '' @ path) c w = (Inr conn, cn, wn)"
    using that by (simp add: NameList_def close)
  have entries: "trace (snd (snd (List_cmd path c w))) =
          trace wn @ [DataScan, DataClose, RespRead StatusClosingDataConnection]"
    if "cmdDataConnFrom 0 ((if mlst c then ''MLSD'' else ''LIST'') @ '' '' @ path) c w =
          (Inr conn, cn, wn)"
    using that by (cases "mlst c") (simp_all add: List_cmd_def close)
  show ?thesis using close names entries by blast
qed

lemma NameList_w_nlst:
  "cmdDataConnFrom 0 ''NLST pub'' c_legacy w_nlst =
     (Inr conn_broken, c_legacy,
      \<lparr>cmd_errs = [], ctrl_in = [Inr ''226 Directory send OK''], ctrl_close_err = None,
       dial_results = [], now_year = 2017,
       trace = [CmdSent ''PASV'', RespRead 227, DataDial ''10.0.0.5:51213'' 0,
                CmdSent ''NLST pub'', RespRead (- 1)]\<rparr>)"
  by (simp add: client_defs io_defs status_defs str_defs num_defs c_legacy_def w_nlst_def)

theorem response_Close_always_reads_status_witness:
  "cmdDataConnFrom 0 ''NLST pub'' c_legacy w_nlst =
     (Inr conn_broken, c_legacy,
      \<lparr>cmd_errs = [], ctrl_in = [Inr ''226 Directory send OK''], ctrl_close_err = None,
       dial_results = [], now_year = 2017,
       trace = [CmdSent ''PASV'', RespRead 227, DataDial ''10.0.0.5:51213'' 0,
                CmdSent ''NLST pub'', RespRead (- 1)]\<rparr>)
   \<and> fst (NameList ''pub'' c_legacy w_nlst) = ([''a.txt''], Some (NetError ''connection reset''))
   \<and> trace (snd (snd (NameList ''pub'' c_legacy w_nlst))) =
       [CmdSent ''PASV'', RespRead 227, DataDial ''10.0.0.5:51213'' 0,
        CmdSent ''NLST pub'', RespRead (- 1), DataScan, DataClose, RespRead 226]"
proof -
  note a = NameList_w_nlst
  have b: "fst (NameList ''pub'' c_legacy w_nlst) = ([''a.txt''], Some (NetError ''connection reset''))"
    by (simp add: NameList_def a conn_broken_def)
  from response_Close_always_reads_status
    [where conn = conn_broken and path = "''pub''" and c = c_legacy and w = w_nlst and cn = c_legacy] a
  have "trace (snd (snd (NameList ''pub'' c_legacy w_nlst))) =
       [CmdSent ''PASV'', RespRead 227, DataDial ''10.0.0.5:51213'' 0,
        CmdSent ''NLST pub'', RespRead (- 1)] @ [DataScan, DataClose, RespRead StatusClosingDataConnection]"
    by simp
  then show ?thesis using a b by (simp add: status_defs)
qed

subsection \<open>Storing a file\<close>

text \<open>
  Claim C1 does not hold of the code.  When copying the caller's reader fails, \<open>StorFrom\<close>
  closes the data connection and returns the copy error at once: no reply is read after
  the close.  The server's completion reply stays unread on the control connection, and
  the next command (here NOOP) takes it for its own.
\<close>

theorem StorFrom_copy_error_skips_status_read:
  "fst (StorFrom ''f.txt'' failing_reader 0 c_fresh w_stor) = Some (ErrorString ''read failed'')
   \<and> trace (snd (snd (StorFrom ''f.txt'' failing_reader 0 c_fresh w_stor))) =
       [CmdSent ''EPSV'', RespRead 229, DataDial ''10.0.0.5:51213'' 0,
        CmdSent ''STOR f.txt'', RespRead (- 1), DataCopy, DataClose]
   \<and> ctrl_in (snd (snd (StorFrom ''f.txt'' failing_reader 0 c_fresh w_stor))) =
       [Inr ''226 Transfer complete'']
   \<and> fst (NoOp (snd (snd (StorFrom ''f.txt'' failing_reader 0 c_fresh w_stor)))) =
       Some (TextprotoError 226 ''Transfer complete'')"
proof -
  have s: "StorFrom ''f.txt'' failing_reader 0 c_fresh w_stor =
      (Some (ErrorString ''read failed''), c_fresh,
       \<lparr>cmd_errs = [], ctrl_in = [Inr ''226 Transfer complete''], ctrl_close_err = None,
        dial_results = [], now_year = 2017,
        trace = [CmdSent ''EPSV'', RespRead 229, DataDial ''10.0.0.5:51213'' 0,
                 CmdSent ''STOR f.txt'', RespRead (- 1), DataCopy, DataClose]\<rparr>)"
    by (simp add: client_defs io_defs status_defs str_defs num_defs c_fresh_def w_stor_def
        failing_reader_def conn_ok_def)
  show ?thesis
    unfolding s
    by (simp add: NoOp_def err_of_def io_defs status_defs num_defs)
qed

end
